theory Spec2Isabelle
  imports Complex_Main
begin

section \<open>Bad-channel detection (spikeinterface, preprocessing/remove_bad_channels.py)\<close>

text \<open>
  A shallow embedding of \<^verbatim>\<open>remove_bad_channels.py\<close>. Floating-point numbers are
  modelled by exact reals; a value numpy would report as not-a-number is \<open>None\<close> in a
  \<open>real option\<close>. Exceptions are values of type \<open>error\<close>, on the left of a sum. The
  routines of scipy.signal that filter and estimate spectra are parameters of the model
  (\<open>siglib\<close>); the chunk sampler \<^verbatim>\<open>get_random_data_chunks\<close> is a parameter too.
\<close>

subsection \<open>Python values, errors, keyword dictionaries\<close>

datatype pyval = PyNone | PyBool bool | PyInt int | PyFloat real | PyStr string | PyObj string

fun truthy :: "pyval \<Rightarrow> bool" where
  "truthy PyNone = False"
| "truthy (PyBool b) = b"
| "truthy (PyInt i) = (i \<noteq> 0)"
| "truthy (PyFloat r) = (r \<noteq> 0)"
| "truthy (PyStr s) = (s \<noteq> [])"
| "truthy (PyObj _) = True"

datatype error =
  NameError | TypeError | AttributeError | AssertionError | IndexError | ValueError | KeyError

type_synonym kwargs = "string \<rightharpoonup> pyval"

record recording =
  num_channels :: nat
  num_segments :: nat
  sampling_frequency :: real
  channel_ids :: "string list"

text \<open>A chunk is a 2-D array of shape (samples, channels): a list of rows of equal length.\<close>

type_synonym chunk = "real list list"

definition num_cols :: "chunk \<Rightarrow> nat" where
  "num_cols raw = (case raw of [] \<Rightarrow> 0 | r # _ \<Rightarrow> length r)"

definition column :: "chunk \<Rightarrow> nat \<Rightarrow> real list" where
  "column raw c = map (\<lambda>r. r ! c) raw"

definition columns :: "chunk \<Rightarrow> real list list" where
  "columns raw = map (column raw) [0..<num_cols raw]"

subsection \<open>handle\_test\_case and handle\_random\_chunk\_kwargs\<close>

text \<open>
  \<^verbatim>\<open>handle_test_case\<close> pops the key from the dictionary it is given (the dictionary is
  mutated in place, so the caller sees it without the key) and returns whether the key was
  there. The model returns the dictionary after the call and the flag.
\<close>

definition handle_test_case :: "kwargs \<Rightarrow> kwargs \<times> bool" where
  "handle_test_case d =
     (if d ''scale_for_testing'' \<noteq> None
      then (d(''scale_for_testing'' := None), True)
      else (d, False))"

text \<open>\<^verbatim>\<open>key in d\<close>: a TypeError when \<^verbatim>\<open>d\<close> is \<^verbatim>\<open>None\<close>.\<close>

definition py_in :: "string \<Rightarrow> kwargs option \<Rightarrow> error + bool" where
  "py_in k d = (case d of None \<Rightarrow> Inl TypeError | Some m \<Rightarrow> Inr (m k \<noteq> None))"

text \<open>\<^verbatim>\<open>int(x)\<close> of a float: truncation towards zero.\<close>

definition py_int :: "real \<Rightarrow> int" where
  "py_int x = (if 0 \<le> x then \<lfloor>x\<rfloor> else \<lceil>x\<rceil>)"

definition default_random_chunk_kwargs :: "recording \<Rightarrow> kwargs" where
  "default_random_chunk_kwargs rec =
     [''return_scaled'' \<mapsto> PyBool True,
      ''num_chunks_per_segment'' \<mapsto> PyInt 10,
      ''chunk_size'' \<mapsto> PyInt (py_int (0.3 * sampling_frequency rec)),
      ''concatenated'' \<mapsto> PyBool False,
      ''seed'' \<mapsto> PyInt 0]"

definition handle_random_chunk_kwargs ::
  "recording \<Rightarrow> kwargs option \<Rightarrow> error + (kwargs \<times> bool)" where
  "handle_random_chunk_kwargs rec user_random_chunk_kwargs =
     (case py_in ''concatenated'' user_random_chunk_kwargs of
        Inl e \<Rightarrow> Inl e
      | Inr present \<Rightarrow>
          if present \<and>
             (case user_random_chunk_kwargs of
                None \<Rightarrow> False
              | Some u \<Rightarrow> (case u ''concatenated'' of None \<Rightarrow> False | Some v \<Rightarrow> truthy v))
          then Inl AttributeError
          else
            let random_chunk_kwargs =
                  (case user_random_chunk_kwargs of
                     None \<Rightarrow> default_random_chunk_kwargs rec
                   | Some u \<Rightarrow> default_random_chunk_kwargs rec ++ u)
            in Inr (handle_test_case random_chunk_kwargs))"

subsection \<open>Names in scope of detect\_bad\_channels\<close>

text \<open>
  The names bound when line 114 of the source runs: the four parameters of
  \<^verbatim>\<open>detect_bad_channels\<close> and the names the module binds at top level (its imports,
  its class and its functions). Reading a name that is in neither (and is no builtin)
  raises NameError.
\<close>

definition module_globals :: "(string \<times> pyval) list" where
  "module_globals =
     map (\<lambda>n. (n, PyObj n))
       [''warnings'', ''np'', ''ChannelSliceRecording'', ''define_function_from_class'',
        ''BasePreprocessor'', ''get_random_data_chunks'', ''scipy'',
        ''RemoveBadChannelsRecording'', ''remove_bad_channels'', ''detect_bad_channels'',
        ''handle_random_chunk_kwargs'', ''handle_test_case'', ''detect_bad_channels_ibl'',
        ''rms'', ''detrend'', ''channel_simiarlity_new'', ''channel_similarity'',
        ''fxcor'', ''nxcor'']"

definition detect_bad_channels_scope ::
  "real option \<Rightarrow> real \<times> real \<Rightarrow> kwargs option \<Rightarrow> (string \<times> pyval) list" where
  "detect_bad_channels_scope psd_hf_threshold similarity_threshold random_chunk_kwargs =
     [(''recording'', PyObj ''recording''),
      (''psd_hf_threshold'', (case psd_hf_threshold of None \<Rightarrow> PyNone | Some t \<Rightarrow> PyFloat t)),
      (''similarity_threshold'', PyObj ''similarity_threshold''),
      (''random_chunk_kwargs'',
         (case random_chunk_kwargs of None \<Rightarrow> PyNone | Some _ \<Rightarrow> PyObj ''random_chunk_kwargs''))]
     @ module_globals"

definition read_name :: "(string \<times> pyval) list \<Rightarrow> string \<Rightarrow> error + pyval" where
  "read_name scope n = (case map_of scope n of None \<Rightarrow> Inl NameError | Some v \<Rightarrow> Inr v)"

text \<open>\<^verbatim>\<open>1.4 if fs < 5000 else 0.02\<close>, with \<^verbatim>\<open>fs\<close> read from the scope.\<close>

definition default_psd_hf_threshold :: "(string \<times> pyval) list \<Rightarrow> error + real" where
  "default_psd_hf_threshold scope =
     (case read_name scope ''fs'' of
        Inl e \<Rightarrow> Inl e
      | Inr (PyFloat fs) \<Rightarrow> Inr (if fs < 5000 then 1.4 else 0.02)
      | Inr (PyInt fs) \<Rightarrow> Inr (if fs < 5000 then 1.4 else 0.02)
      | Inr (PyBool b) \<Rightarrow> Inr 1.4
      | Inr _ \<Rightarrow> Inl TypeError)"

subsection \<open>numpy helpers\<close>

definition mean :: "real list \<Rightarrow> real" where
  "mean xs = sum_list xs / real (length xs)"

text \<open>
  \<^verbatim>\<open>np.median\<close> of a 1-D array: the middle of the sorted values, the average of the two
  middle ones when there is an even number of them. (Of no value at all numpy returns
  nan; the model's 0 is then never read, since there is no channel to compare it with.)
\<close>

definition np_median :: "real list \<Rightarrow> real" where
  "np_median xs =
     (let s = sort xs; n = length xs
      in if n = 0 then 0
         else if odd n then s ! (n div 2)
         else (s ! (n div 2 - 1) + s ! (n div 2)) / 2)"

text \<open>
  Division of floats in numpy raises nothing: by zero it gives nan or an infinity. In
  both places where this file divides, the numerator is zero whenever the denominator is,
  so the quotient is nan there: \<open>None\<close>.
\<close>

definition np_div :: "real \<Rightarrow> real \<Rightarrow> real option" where
  "np_div x y = (if y = 0 then None else Some (x / y))"

text \<open>\<^verbatim>\<open>np.allclose(a, b, rtol=0, atol=atol)\<close>; nan is close to nothing.\<close>

definition isclose :: "real \<Rightarrow> real option \<Rightarrow> real option \<Rightarrow> bool" where
  "isclose atol a b =
     (case a of None \<Rightarrow> False
      | Some p \<Rightarrow> (case b of None \<Rightarrow> False | Some q \<Rightarrow> \<bar>p - q\<bar> \<le> atol))"

definition allclose :: "real option list \<Rightarrow> real option list \<Rightarrow> real \<Rightarrow> bool" where
  "allclose a b atol = list_all2 (isclose atol) a b"

text \<open>\<^verbatim>\<open>raw - np.mean(raw, axis=0)\<close>: every column minus its own mean.\<close>

definition center_columns :: "chunk \<Rightarrow> chunk" where
  "center_columns raw =
     (let means = map mean (columns raw) in map (\<lambda>r. map2 (-) r means) raw)"

text \<open>\<^verbatim>\<open>np.max\<close> of a non-empty array (both callers pass one).\<close>

fun np_max :: "'a::linorder list \<Rightarrow> 'a" where
  "np_max (x # xs) = fold max xs x"

definition np_diff :: "int list \<Rightarrow> int list" where
  "np_diff xs = map2 (\<lambda>a b. b - a) xs (tl xs)"

fun cumsum_from :: "int \<Rightarrow> int list \<Rightarrow> int list" where
  "cumsum_from acc [] = []"
| "cumsum_from acc (x # xs) = (acc + x) # cumsum_from (acc + x) xs"

definition np_cumsum :: "int list \<Rightarrow> int list" where
  "np_cumsum xs = cumsum_from 0 xs"

text \<open>\<^verbatim>\<open>np.where(mask)[0]\<close>: the indices where the mask holds, ascending.\<close>

definition np_where :: "bool list \<Rightarrow> nat list" where
  "np_where bs = filter (\<lambda>i. bs ! i) [0..<length bs]"

text \<open>\<^verbatim>\<open>a[idx] = v\<close> for indices in range.\<close>

definition assign :: "nat list \<Rightarrow> nat list \<Rightarrow> nat \<Rightarrow> nat list" where
  "assign a idx v = fold (\<lambda>i l. l[i := v]) idx a"

subsection \<open>Cross-correlation: fxcor, nxcor, channel\_similarity\<close>

text \<open>
  \<^verbatim>\<open>irfft(rfft(x) * conj(rfft(y)), n=n)\<close> is, in exact arithmetic, the circular
  cross-correlation of \<open>x\<close> and \<open>y\<close>: at lag \<open>k\<close> the sum of \<open>x[(i + k) mod n] * y[i]\<close>.
  The transforms refuse an input of no sample (ValueError).
\<close>

definition xcorr_lag :: "real list \<Rightarrow> real list \<Rightarrow> nat \<Rightarrow> real" where
  "xcorr_lag x y k =
     (let n = length x in sum_list (map (\<lambda>i. x ! ((i + k) mod n) * y ! i) [0..<n]))"

definition fxcor :: "real list \<Rightarrow> real list \<Rightarrow> error + real list" where
  "fxcor x y =
     (let n = length x
      in if n = 0 then Inl ValueError else Inr (map (xcorr_lag x y) [0..<n]))"

text \<open>The same on a 2-D \<open>x\<close>, with \<^verbatim>\<open>y[:, np.newaxis]\<close> broadcast to every column:
  the result has one row per lag and one column per channel.\<close>

definition fxcor2 :: "chunk \<Rightarrow> real list \<Rightarrow> error + real list list" where
  "fxcor2 x y =
     (let n = length x
      in if n = 0 then Inl ValueError
         else Inr (map (\<lambda>k. map (\<lambda>c. xcorr_lag c y k) (columns x)) [0..<n]))"

text \<open>
  \<^verbatim>\<open>nxcor\<close>: the reference and every column lose their mean, and the cross-correlation
  at lag 0 is divided by that of the reference with itself. Line 298 computes a quotient
  and drops it; it only matters in that \<^verbatim>\<open>x[:, 0]\<close> needs a first column.
\<close>

definition nxcor :: "chunk \<Rightarrow> real list \<Rightarrow> error + real option list" where
  "nxcor x ref =
     (let ref' = map (\<lambda>v. v - mean ref) ref
      in case fxcor ref' ref' of
           Inl e \<Rightarrow> Inl e
         | Inr r \<Rightarrow>
             let apeak = r ! 0;
                 x' = center_columns x
             in if num_cols x' = 0 then Inl IndexError
                else (case fxcor2 x' ref' of
                        Inl e \<Rightarrow> Inl e
                      | Inr f \<Rightarrow> Inr (map (\<lambda>v. np_div v apeak) (f ! 0))))"

text \<open>\<^verbatim>\<open>np.sum(raw * ref[:, np.newaxis], axis=0) / np.sum(ref ** 2)\<close>\<close>

definition direct_similarity :: "chunk \<Rightarrow> real list \<Rightarrow> real option list" where
  "direct_similarity raw ref =
     map (\<lambda>c. np_div (sum_list (map2 (*) c ref)) (sum_list (map (\<lambda>v. v ^ 2) ref)))
       (columns raw)"

definition channel_simiarlity_new :: "chunk \<Rightarrow> real option list" where
  "channel_simiarlity_new raw = direct_similarity raw (map np_median raw)"

text \<open>
  \<^verbatim>\<open>channel_similarity\<close> returns the values of \<^verbatim>\<open>nxcor\<close> when its assertion holds;
  no value is nan then, so the values are read as reals.
\<close>

definition channel_similarity :: "chunk \<Rightarrow> error + real list" where
  "channel_similarity raw =
     (let ref = map np_median raw
      in case nxcor raw ref of
           Inl e \<Rightarrow> Inl e
         | Inr xcor \<Rightarrow>
             let alt_comp = direct_similarity raw ref
             in if allclose xcor alt_comp 0.01
                then (case those xcor of Some v \<Rightarrow> Inr v | None \<Rightarrow> Inl AssertionError)
                else Inl AssertionError)"

subsection \<open>Median filter and detrend\<close>

text \<open>
  \<^verbatim>\<open>scipy.signal.medfilt(xs, k)\<close>: \<open>k\<close> must be odd (ValueError otherwise); the window
  of \<open>k\<close> samples around each position is read with zeros outside the array, and the
  output is the middle of the sorted window.
\<close>

definition zget :: "real list \<Rightarrow> int \<Rightarrow> real" where
  "zget xs j = (if 0 \<le> j \<and> j < int (length xs) then xs ! nat j else 0)"

definition window :: "real list \<Rightarrow> nat \<Rightarrow> nat \<Rightarrow> real list" where
  "window xs k i = map (\<lambda>j. zget xs (int i + int j - int (k div 2))) [0..<k]"

definition medfilt :: "real list \<Rightarrow> nat \<Rightarrow> error + real list" where
  "medfilt xs k =
     (if k mod 2 \<noteq> 1 then Inl ValueError
      else Inr (map (\<lambda>i. sort (window xs k i) ! (k div 2)) [0..<length xs]))"

text \<open>\<^verbatim>\<open>a[lo:-hi]\<close> for \<open>hi > 0\<close>; with \<open>hi = 0\<close> the slice \<^verbatim>\<open>a[lo:-0]\<close> is
  \<^verbatim>\<open>a[lo:0]\<close>, which is empty.\<close>

definition slice_trim :: "'a list \<Rightarrow> nat \<Rightarrow> nat \<Rightarrow> 'a list" where
  "slice_trim a lo hi = (if hi = 0 then [] else drop lo (take (length a - hi) a))"

text \<open>Elementwise difference of two 1-D arrays of one length (they always are, here).\<close>

definition np_sub :: "real list \<Rightarrow> real list \<Rightarrow> error + real list" where
  "np_sub x y = (if length x = length y then Inr (map2 (-) x y) else Inl ValueError)"

definition detrend :: "real list \<Rightarrow> nat \<Rightarrow> error + real list" where
  "detrend x nmed =
     (let ntap = nat \<lceil>real nmed / 2\<rceil>
      in case x of
           [] \<Rightarrow> Inl IndexError
         | x0 # _ \<Rightarrow>
             let xf = replicate ntap x0 @ x @ replicate ntap (last x)
             in (case medfilt xf nmed of
                   Inl e \<Rightarrow> Inl e
                 | Inr m \<Rightarrow> np_sub x (slice_trim m ntap ntap)))"

definition rms :: "chunk \<Rightarrow> real list" where
  "rms x = map (\<lambda>c. sqrt (mean (map (\<lambda>v. v ^ 2) c))) (columns x)"

subsection \<open>The single-chunk classifier: detect\_bad\_channels\_ibl\<close>

text \<open>
  What scipy.signal contributes: \<open>welch fs x\<close> is \<^verbatim>\<open>scipy.signal.welch(x, fs=fs, axis=0)\<close>,
  the frequencies and one row of power per frequency; \<open>highpass fs x\<close> is the third-order
  Butterworth high-pass at 300 Hz applied forwards and backwards
  (\<^verbatim>\<open>butter\<close>, \<^verbatim>\<open>sosfiltfilt\<close>).
\<close>

record siglib =
  welch :: "real \<Rightarrow> chunk \<Rightarrow> real list \<times> real list list"
  highpass :: "real \<Rightarrow> chunk \<Rightarrow> chunk"

record xfeats =
  ind :: "nat list"
  rms_raw :: "real list"
  xcor_hf :: "real list"
  xcor_lf :: "real list"
  psd_hf :: "real option list"

text \<open>\<^verbatim>\<open>scale = 1e6 if scale_for_testing else 1\<close>\<close>

definition scale_factor :: "bool \<Rightarrow> real" where
  "scale_factor scale_for_testing = (if scale_for_testing then 1000000 else 1)"

text \<open>
  \<^verbatim>\<open>np.mean(psd[fscale > (fs / 2 * 0.8), :], axis=0)\<close>: the mean over the selected rows,
  for each of the \<open>nc\<close> channels; nan when no row is selected.
\<close>

definition mean_psd_hf :: "real \<Rightarrow> nat \<Rightarrow> real list \<times> real list list \<Rightarrow> real option list" where
  "mean_psd_hf fs nc w =
     (let sel = map snd (filter (\<lambda>(f, row). f > fs / 2 * 0.8) (zip (fst w) (snd w)))
      in map (\<lambda>c. if sel = [] then None else Some (mean (column sel c))) [0..<nc])"

text \<open>A comparison with nan is false.\<close>

definition gt_nan :: "real option \<Rightarrow> real \<Rightarrow> bool" where
  "gt_nan a t = (case a of None \<Rightarrow> False | Some v \<Rightarrow> v > t)"

text \<open>
  Lines 237 to 241: the channels below the threshold on the trend coherency, and of them,
  when the last channel is one, those where the running count of gaps is at its maximum.
\<close>

definition outside_channels :: "nat \<Rightarrow> real list \<Rightarrow> nat list" where
  "outside_channels nc lf =
     (let ioutside = np_where (map (\<lambda>v. v < - 0.75) lf)
      in if ioutside \<noteq> [] \<and> int (last ioutside) = int nc - 1
         then let a = np_cumsum (0 # map (\<lambda>d. d - 1) (np_diff (map int ioutside)))
              in map fst (filter (\<lambda>(i, ai). ai = np_max a) (zip ioutside a))
         else [])"

text \<open>Lines 232 to 244: the recommendation, from the features.\<close>

definition make_recommendation ::
  "nat \<Rightarrow> real \<Rightarrow> real \<times> real \<Rightarrow> xfeats \<Rightarrow> nat list" where
  "make_recommendation nc psd_hf_threshold similarity_threshold xf =
     (let ichannels = replicate nc 0;
          idead = np_where (map (\<lambda>v. fst similarity_threshold > v) (xcor_hf xf));
          inoisy = np_where (map2 (\<lambda>p x. gt_nan p psd_hf_threshold \<or> x > snd similarity_threshold)
                               (psd_hf xf) (xcor_hf xf));
          ichannels = assign ichannels (outside_channels nc (xcor_lf xf)) 3;
          ichannels = assign ichannels idead 1;
          ichannels = assign ichannels inoisy 2
      in ichannels)"

definition err_bind :: "error + 'a \<Rightarrow> ('a \<Rightarrow> error + 'b) \<Rightarrow> error + 'b" where
  "err_bind r f = (case r of Inl e \<Rightarrow> Inl e | Inr v \<Rightarrow> f v)"

definition detect_bad_channels_ibl ::
  "siglib \<Rightarrow> chunk \<Rightarrow> real \<Rightarrow> real \<Rightarrow> real \<times> real \<Rightarrow> bool \<Rightarrow> error + (nat list \<times> xfeats)" where
  "detect_bad_channels_ibl lib raw0 fs psd_hf_threshold similarity_threshold scale_for_testing =
     (let nc = num_cols raw0;
          raw = center_columns raw0
      in err_bind (channel_similarity raw) (\<lambda>xcor.
           if \<not> allclose (map Some xcor) (channel_simiarlity_new raw) 0.0001
           then Inl AssertionError
           else
             let scale = scale_factor scale_for_testing;
                 w = welch lib fs (map (map (\<lambda>v. v * scale)) raw);
                 hf = highpass lib fs raw
             in err_bind (channel_similarity hf) (\<lambda>xcorf.
                err_bind (detrend xcor 11) (\<lambda>hfd.
                err_bind (detrend xcorf 11) (\<lambda>lfd.
                  let xf = \<lparr>ind = [0..<nc],
                            rms_raw = rms raw,
                            xcor_hf = hfd,
                            xcor_lf = map2 (\<lambda>a d. a - d - 1) xcorf lfd,
                            psd_hf = mean_psd_hf fs nc w\<rparr>
                  in Inr (make_recommendation nc psd_hf_threshold similarity_threshold xf, xf))))))"

subsection \<open>The aggregation over chunks: detect\_bad\_channels\<close>

text \<open>
  \<^verbatim>\<open>scipy.stats.mode\<close> of one row, as scipy computes it: the sorted distinct values
  (\<^verbatim>\<open>np.unique\<close>) with their counts, and the value at the first position of the
  largest count (\<^verbatim>\<open>argmax\<close>). Of an empty row the mode is nan: \<open>None\<close>.
\<close>

definition argmax :: "nat list \<Rightarrow> nat" where
  "argmax cs = length (takeWhile (\<lambda>c. c \<noteq> np_max cs) cs)"

definition scipy_mode :: "nat list \<Rightarrow> nat option" where
  "scipy_mode xs =
     (if xs = [] then None
      else let vals = sort (remdups xs);
               cnts = map (count_list xs) vals
           in Some (vals ! argmax cnts))"

text \<open>
  \<^verbatim>\<open>channel_labels[:, i] = labels\<close> on a matrix of \<open>ncols\<close> columns (one row per
  channel): IndexError when there is no column \<open>i\<close>; the labels must be one per row
  (or a single one, which numpy broadcasts), ValueError otherwise.
\<close>

definition set_column :: "nat list list \<Rightarrow> nat \<Rightarrow> nat \<Rightarrow> nat list \<Rightarrow> error + nat list list" where
  "set_column m ncols i v =
     (if i \<ge> ncols then Inl IndexError
      else if length v = length m then Inr (map2 (\<lambda>row x. row[i := x]) m v)
      else if length v = 1 then Inr (map (\<lambda>row. row[i := v ! 0]) m)
      else Inl ValueError)"

fun fill_labels ::
  "(chunk \<Rightarrow> error + nat list) \<Rightarrow> nat \<Rightarrow> nat \<Rightarrow> chunk list \<Rightarrow> nat list list \<Rightarrow> error + nat list list" where
  "fill_labels classify ncols i [] m = Inr m"
| "fill_labels classify ncols i (random_chunk # rest) m =
     err_bind (classify random_chunk) (\<lambda>labels.
     err_bind (set_column m ncols i labels) (\<lambda>m'.
       fill_labels classify ncols (Suc i) rest m'))"

text \<open>\<^verbatim>\<open>recording.get_num_segments() * random_chunk_kwargs["num_chunks_per_segment"]\<close>
  as a dimension of \<^verbatim>\<open>np.zeros\<close>.\<close>

definition num_label_columns :: "recording \<Rightarrow> kwargs \<Rightarrow> error + nat" where
  "num_label_columns rec kw =
     (case kw ''num_chunks_per_segment'' of
        None \<Rightarrow> Inl KeyError
      | Some (PyInt k) \<Rightarrow> if k < 0 \<and> num_segments rec > 0 then Inl ValueError
                         else Inr (num_segments rec * nat k)
      | Some (PyBool b) \<Rightarrow> Inr (if b then num_segments rec else 0)
      | Some _ \<Rightarrow> Inl TypeError)"

text \<open>
  \<^verbatim>\<open>bad_channel_ids.size > recording.get_num_channels() * 0.333\<close>, the condition of the
  warning.
\<close>

definition warn_over_third :: "nat \<Rightarrow> nat \<Rightarrow> bool" where
  "warn_over_third bad_count nch = (real bad_count > real nch * 0.333)"

text \<open>\<^verbatim>\<open>ids[bad_inds]\<close>: IndexError when an index is out of bounds.\<close>

definition take_ids :: "string list \<Rightarrow> nat list \<Rightarrow> error + string list" where
  "take_ids ids idx =
     (if list_all (\<lambda>i. i < length ids) idx then Inr (map (\<lambda>i. ids ! i) idx) else Inl IndexError)"

record detection =
  bad_inds :: "nat list"
  bad_channel_ids :: "string list"
  channel_flags :: "nat option list"
  warned :: bool

text \<open>Lines 134 to 146: from the matrix of labels to the result.\<close>

definition aggregate :: "recording \<Rightarrow> nat list list \<Rightarrow> error + detection" where
  "aggregate rec channel_labels =
     (let flags = map scipy_mode channel_labels;
          inds = np_where (map (\<lambda>f. f \<noteq> Some 0) flags)
      in err_bind (take_ids (channel_ids rec) inds) (\<lambda>ids.
           Inr \<lparr>bad_inds = inds, bad_channel_ids = ids, channel_flags = flags,
                warned = warn_over_third (length ids) (num_channels rec)\<rparr>))"

text \<open>\<^verbatim>\<open>channel_labels[:, i], __ = detect_bad_channels_ibl(...)\<close>: the labels of one chunk,
  the features dropped.\<close>

definition chunk_labels ::
  "siglib \<Rightarrow> real \<Rightarrow> real \<Rightarrow> real \<times> real \<Rightarrow> bool \<Rightarrow> chunk \<Rightarrow> error + nat list" where
  "chunk_labels lib fs psd_hf_threshold similarity_threshold scale_for_testing random_chunk =
     err_bind
       (detect_bad_channels_ibl lib random_chunk fs psd_hf_threshold similarity_threshold
          scale_for_testing)
       (\<lambda>r. Inr (fst r))"

definition detect_bad_channels ::
  "siglib \<Rightarrow> (recording \<Rightarrow> kwargs \<Rightarrow> error + chunk list) \<Rightarrow>
   recording \<Rightarrow> real option \<Rightarrow> real \<times> real \<Rightarrow> kwargs option \<Rightarrow> error + detection" where
  "detect_bad_channels lib get_random_data_chunks rec psd_hf_threshold similarity_threshold
       random_chunk_kwargs =
     err_bind
       (case psd_hf_threshold of
          None \<Rightarrow> default_psd_hf_threshold
                    (detect_bad_channels_scope psd_hf_threshold similarity_threshold
                       random_chunk_kwargs)
        | Some t \<Rightarrow> Inr t) (\<lambda>thr.
     err_bind (handle_random_chunk_kwargs rec random_chunk_kwargs) (\<lambda>(kw, scale_for_testing).
     err_bind (get_random_data_chunks rec kw) (\<lambda>random_data.
     err_bind (num_label_columns rec kw) (\<lambda>ncols.
     err_bind
       (fill_labels
          (chunk_labels lib (sampling_frequency rec) thr similarity_threshold scale_for_testing)
          ncols 0 random_data (replicate (num_channels rec) (replicate ncols 0)))
       (aggregate rec)))))"

subsection \<open>The trailing run, as the specification words it\<close>

text \<open>
  The maximal contiguous run of flagged channel indices that ends at the last channel
  index: channel \<open>i\<close> belongs to it when every channel from \<open>i\<close> to the last is flagged.
\<close>

definition spec_trailing_run :: "nat \<Rightarrow> (nat \<Rightarrow> bool) \<Rightarrow> nat list" where
  "spec_trailing_run nc flagged = filter (\<lambda>i. list_all flagged [i..<nc]) [0..<nc]"

subsection \<open>Detrending, as the specification words it\<close>

text \<open>
  The vector minus its own running median of order \<open>w\<close>, the vector being continued
  before its first and after its last sample by those two values (constant extrapolation):
  \<open>edge_value x p\<close> is the sample at position \<open>p\<close> of the continued vector.
\<close>

definition edge_value :: "real list \<Rightarrow> int \<Rightarrow> real" where
  "edge_value x p = x ! nat (max 0 (min (int (length x) - 1) p))"

definition running_median :: "real list \<Rightarrow> nat \<Rightarrow> nat \<Rightarrow> real" where
  "running_median x w i =
     sort (map (\<lambda>j. edge_value x (int i + int j - int (w div 2))) [0..<w]) ! (w div 2)"

definition spec_detrend :: "real list \<Rightarrow> nat \<Rightarrow> real list" where
  "spec_detrend x w = map (\<lambda>i. x ! i - running_median x w i) [0..<length x]"

section \<open>Properties\<close>

subsection \<open>Basic facts\<close>

lemma err_bind_simps:
  "err_bind (Inl e) f = Inl e" "err_bind (Inr v) f = f v"
  by (simp_all add: err_bind_def)

lemma fs_unbound:
  "read_name (detect_bad_channels_scope p s k) ''fs'' = Inl NameError"
  by (simp add: read_name_def detect_bad_channels_scope_def module_globals_def)

subsection \<open>The default threshold\<close>

text \<open>
  Claim C2. With \<^verbatim>\<open>psd_hf_threshold\<close> omitted the threshold should be 1.4 below 5000 Hz
  and 0.02 otherwise. The source reads the sampling rate from the name \<^verbatim>\<open>fs\<close>, which
  is bound nowhere in \<^verbatim>\<open>detect_bad_channels\<close> or in the module: whatever the recording
  and the other arguments, the call ends in NameError and no threshold is chosen.
\<close>

theorem default_threshold_raises_NameError:
  "detect_bad_channels lib sampler rec None similarity_threshold random_chunk_kwargs = Inl NameError"
  by (simp add: detect_bad_channels_def default_psd_hf_threshold_def fs_unbound err_bind_simps)

subsection \<open>The keyword dictionary for the chunk sampler\<close>

text \<open>
  Claim C9. With \<^verbatim>\<open>random_chunk_kwargs\<close> omitted (its default, \<^verbatim>\<open>None\<close>) the
  defaults should apply. The first statement of \<^verbatim>\<open>handle_random_chunk_kwargs\<close> tests
  \<^verbatim>\<open>"concatenated" in user_random_chunk_kwargs\<close>, which is a TypeError on
  \<^verbatim>\<open>None\<close>; the later test \<^verbatim>\<open>is not None\<close> is never reached.
\<close>

theorem default_kwargs_raise_TypeError:
  "handle_random_chunk_kwargs rec None = Inl TypeError \<and>
   detect_bad_channels lib sampler rec (Some t) similarity_threshold None = Inl TypeError"
  by (simp add: detect_bad_channels_def handle_random_chunk_kwargs_def py_in_def err_bind_simps)



lemma defaults_with_empty_user_kwargs:
  "handle_random_chunk_kwargs rec (Some Map.empty) =
     Inr ([''return_scaled'' \<mapsto> PyBool True,
           ''num_chunks_per_segment'' \<mapsto> PyInt 10,
           ''chunk_size'' \<mapsto> PyInt (py_int (0.3 * sampling_frequency rec)),
           ''concatenated'' \<mapsto> PyBool False,
           ''seed'' \<mapsto> PyInt 0], False)"
  by (simp add: handle_random_chunk_kwargs_def py_in_def handle_test_case_def
      default_random_chunk_kwargs_def)

text \<open>
  The configuration check: a dictionary whose \<^verbatim>\<open>"concatenated"\<close> is truthy is refused
  by \<^verbatim>\<open>handle_random_chunk_kwargs\<close> with AttributeError, and when a threshold is given
  \<^verbatim>\<open>detect_bad_channels\<close> ends there, whatever the sampler would do.
\<close>

lemma concatenated_rejected:
  assumes "u ''concatenated'' = Some v" "truthy v"
  shows "handle_random_chunk_kwargs rec (Some u) = Inl AttributeError"
  using assms by (simp add: handle_random_chunk_kwargs_def py_in_def)

lemma concatenated_rejected_before_sampling:
  assumes "u ''concatenated'' = Some v" "truthy v"
  shows "detect_bad_channels lib sampler rec (Some t) sim (Some u) = Inl AttributeError"
  using assms by (simp add: detect_bad_channels_def concatenated_rejected err_bind_simps)

text \<open>
  Claim C8. Every dictionary whose \<^verbatim>\<open>"concatenated"\<close> is truthy should make
  \<^verbatim>\<open>detect_bad_channels\<close> fail with the configuration error before any chunk is
  sampled. With the threshold omitted it does not: the unbound name \<^verbatim>\<open>fs\<close> of line 114
  is read before the dictionary is looked at, and the call ends in NameError.
\<close>

theorem concatenated_with_default_threshold_raises_NameError:
  "detect_bad_channels lib sampler rec None sim (Some [''concatenated'' \<mapsto> PyBool True]) = Inl NameError"
  by (simp add: detect_bad_channels_def default_psd_hf_threshold_def fs_unbound err_bind_simps)

subsection \<open>The warning\<close>

text \<open>
  Claim C5. The warning should come when strictly more than a third of the channels are
  bad. The source compares with the channel count times 0.333: 128 bad channels of 384
  are exactly a third and 128 exceeds 127.872, and one bad channel of three exceeds 0.999.
  The result is returned with the warning.
\<close>

theorem warning_at_exactly_one_third:
  "warn_over_third 128 384 \<and> \<not> (real 128 > real 384 / 3) \<and>
   aggregate \<lparr>num_channels = 3, num_segments = 1, sampling_frequency = 30000,
               channel_ids = [''a'', ''b'', ''c'']\<rparr> [[0, 0, 0], [2, 2, 0], [0, 0, 0]] =
     Inr \<lparr>bad_inds = [1], bad_channel_ids = [''b''],
          channel_flags = [Some 0, Some 2, Some 0], warned = True\<rparr>"
  by (simp add: warn_over_third_def aggregate_def scipy_mode_def argmax_def np_where_def
      take_ids_def err_bind_simps)

subsection \<open>Assignment by index\<close>

lemma length_assign: "length (assign a idx v) = length a"
  unfolding assign_def by (induction idx arbitrary: a) simp_all

lemma nth_assign:
  "i < length a \<Longrightarrow> assign a idx v ! i = (if i \<in> set idx then v else a ! i)"
  unfolding assign_def
proof (induction idx arbitrary: a)
  case Nil
  then show ?case by simp
next
  case (Cons j idx)
  then show ?case by (cases "i = j") (auto simp add: nth_list_update)
qed

lemma set_np_where: "set (np_where bs) = {i. i < length bs \<and> bs ! i}"
  by (auto simp add: np_where_def)

lemma np_where_map: "np_where (map f xs) = filter (\<lambda>i. f (xs ! i)) [0..<length xs]"
  unfolding np_where_def by (rule filter_cong) simp_all

subsection \<open>The channels outside of the brain\<close>

text \<open>
  The running count of gaps at position \<open>k\<close> of an ascending index list is the distance
  from the first index to the \<open>k\<close>-th, less \<open>k\<close>.
\<close>

lemma length_cumsum_from: "length (cumsum_from acc ds) = length ds"
  by (induction ds arbitrary: acc) simp_all

lemma length_np_diff: "length (np_diff ys) = length ys - 1"
  by (simp add: np_diff_def)

lemma np_diff_Cons2: "np_diff (y # z # zs) = (z - y) # np_diff (z # zs)"
  by (simp add: np_diff_def)

lemma cumsum_gaps_nth:
  "k < length ys \<Longrightarrow>
   cumsum_from acc (map (\<lambda>d. d - 1) (np_diff (y # ys))) ! k = acc + ys ! k - y - int (Suc k)"
proof (induction ys arbitrary: acc y k)
  case Nil
  then show ?case by simp
next
  case (Cons z zs)
  show ?case
  proof (cases k)
    case 0
    then show ?thesis by (simp add: np_diff_Cons2)
  next
    case (Suc k')
    with Cons.prems have "k' < length zs" by simp
    from Cons.IH [OF this, of "acc + (z - y - 1)" z] Suc show ?thesis
      by (simp add: np_diff_Cons2)
  qed
qed

lemma gap_count_length:
  "length (np_cumsum (0 # map (\<lambda>d. d - 1) (np_diff ys))) = (if ys = [] then 1 else length ys)"
  by (cases ys) (simp_all add: np_cumsum_def length_cumsum_from length_np_diff)

lemma gap_count_nth:
  assumes "k < length ys"
  shows "np_cumsum (0 # map (\<lambda>d. d - 1) (np_diff ys)) ! k = ys ! k - ys ! 0 - int k"
proof (cases ys)
  case Nil
  with assms show ?thesis by simp
next
  case (Cons y zs)
  show ?thesis
  proof (cases k)
    case 0
    then show ?thesis by (simp add: np_cumsum_def Cons)
  next
    case (Suc k')
    with assms Cons have "k' < length zs" by simp
    from cumsum_gaps_nth [OF this, of 0 y] Suc Cons show ?thesis
      by (simp add: np_cumsum_def)
  qed
qed

lemma np_max_Max: "l \<noteq> [] \<Longrightarrow> np_max l = Max (set l)"
proof (cases l)
  case Nil
  assume "l \<noteq> []"
  with Nil show ?thesis by simp
next
  case (Cons a as)
  then show ?thesis using Max.set_eq_fold [of a as] by simp
qed

lemma strict_sorted_gap:
  assumes "sorted_wrt (<) (xs :: nat list)" "k \<le> m" "m < length xs"
  shows "xs ! k + (m - k) \<le> xs ! m"
  using assms(2,3)
proof (induction m)
  case 0
  then show ?case by simp
next
  case (Suc m)
  show ?case
  proof (cases "k = Suc m")
    case True
    then show ?thesis by simp
  next
    case False
    with Suc.prems have km: "k \<le> m" "m < length xs" by simp_all
    have "xs ! m < xs ! Suc m"
      using assms(1) Suc.prems(2) by (simp add: sorted_wrt_nth_less)
    with Suc.IH [OF km] km show ?thesis by simp
  qed
qed

lemma last_flagged:
  assumes "0 < nc" "P (nc - 1)"
  shows "filter P [0..<nc] \<noteq> [] \<and> last (filter P [0..<nc]) = nc - 1"
proof -
  from assms(1) have "[0..<nc] = [0..<nc - 1] @ [nc - 1]"
    by (cases nc) simp_all
  then have "filter P [0..<nc] = filter P [0..<nc - 1] @ [nc - 1]"
    using assms(2) by simp
  then show ?thesis by simp
qed

lemma zip_filter_by_index:
  assumes "length a = length xs"
  shows "map fst (filter (\<lambda>(i, ai). ai = M) (zip xs a)) =
         map (\<lambda>k. xs ! k) (filter (\<lambda>k. a ! k = M) [0..<length xs])"
proof -
  have "zip xs a = map (\<lambda>k. (xs ! k, a ! k)) [0..<length xs]"
    using assms by (auto intro!: nth_equalityI)
  then show ?thesis
    by (simp add: filter_map comp_def)
qed

text \<open>
  Among the flagged indices, when the last channel is flagged, the count of gaps is at its
  maximum exactly on the indices from which every channel up to the last is flagged.
\<close>

lemma trailing_run_by_gap_count:
  assumes xs: "xs = filter P [0..<nc]"
    and ne: "xs \<noteq> []"
    and lst: "last xs = nc - 1"
    and k: "k < length xs"
    and a: "a = np_cumsum (0 # map (\<lambda>d. d - 1) (np_diff (map int xs)))"
  shows "a ! k = np_max a \<longleftrightarrow> list_all P [xs ! k..<nc]"
proof -
  let ?n = "length xs"
  have ss: "sorted_wrt (<) xs"
    unfolding xs by (intro sorted_wrt_filter) simp
  have mem: "\<And>j. j \<in> set xs \<longleftrightarrow> j < nc \<and> P j"
    unfolding xs by auto
  have la: "length a = ?n"
    using ne by (simp add: a gap_count_length)
  have ak: "a ! j = int (xs ! j) - int (xs ! 0) - int j" if "j < ?n" for j
  proof -
    from ne have "0 < ?n" by simp
    then have "map int xs ! 0 = int (xs ! 0)" by (rule nth_map)
    with that gap_count_nth [of j "map int xs"] show ?thesis by (simp add: a)
  qed
  have gap: "xs ! i + (m - i) \<le> xs ! m" if "i \<le> m" "m < ?n" for i m
    using strict_sorted_gap [OF ss that] .
  have top: "xs ! (?n - 1) = nc - 1"
    using ne lst by (simp add: last_conv_nth)
  have n0: "0 < ?n" using ne by simp
  then have n1: "?n - 1 < ?n" by linarith
  have "xs ! k \<in> set xs" using k by simp
  then have xk: "xs ! k < nc" by (simp add: mem)
  have M: "np_max a = a ! (?n - 1)"
  proof -
    have "a \<noteq> []" using la n0 by auto
    then have "np_max a = Max (set a)" by (rule np_max_Max)
    also have "\<dots> = a ! (?n - 1)"
    proof (rule Max_eqI)
      show "finite (set a)" by simp
      show "a ! (?n - 1) \<in> set a" using la n0 by simp
      fix y assume "y \<in> set a"
      then obtain j where j: "j < ?n" "y = a ! j"
        using la by (auto simp add: in_set_conv_nth)
      from j(1) have "j \<le> ?n - 1" by linarith
      then have "xs ! j + (?n - 1 - j) \<le> xs ! (?n - 1)" using n1 by (rule gap)
      then show "y \<le> a ! (?n - 1)"
        unfolding j(2) ak [OF j(1)] ak [OF n1] using j(1) by linarith
    qed
    finally show ?thesis .
  qed
  have "k \<le> ?n - 1" using k by linarith
  then have "xs ! k + (?n - 1 - k) \<le> xs ! (?n - 1)" using n1 by (rule gap)
  then have upper: "xs ! k + (?n - 1 - k) \<le> nc - 1" by (simp only: top)
  have eq_iff: "a ! k = np_max a \<longleftrightarrow> xs ! k + (?n - 1 - k) = nc - 1"
    unfolding M ak [OF k] ak [OF n1] top using k xk by linarith
  show ?thesis
  proof
    assume "a ! k = np_max a"
    then have e: "xs ! k + (?n - 1 - k) = nc - 1" by (simp add: eq_iff)
    have "P j" if j: "xs ! k \<le> j" "j < nc" for j
    proof -
      let ?m = "k + (j - xs ! k)"
      have m: "k \<le> ?m" "?m \<le> ?n - 1" using j e k by linarith+
      then have mn: "?m < ?n" using n0 by linarith
      have lo: "j \<le> xs ! ?m" using gap [OF m(1) mn] j by simp
      have "xs ! ?m + (?n - 1 - ?m) \<le> xs ! (?n - 1)" using m(2) n1 by (rule gap)
      then have "xs ! ?m + (?n - 1 - ?m) \<le> nc - 1" by (simp only: top)
      then have "xs ! ?m \<le> j" using e j m k by linarith
      with lo have "xs ! ?m = j" by simp
      then have "j \<in> set xs" using mn by (metis nth_mem)
      then show ?thesis by (simp add: mem)
    qed
    then show "list_all P [xs ! k..<nc]" by (simp add: list_all_iff)
  next
    assume all: "list_all P [xs ! k..<nc]"
    have sub: "{xs ! k..<nc} \<subseteq> set (drop k xs)"
    proof
      fix j assume "j \<in> {xs ! k..<nc}"
      then have j: "xs ! k \<le> j" "j < nc" by simp_all
      then have "P j" using all by (simp add: list_all_iff)
      then have "j \<in> set xs" using j by (simp add: mem)
      then obtain m where m: "m < ?n" "xs ! m = j" by (auto simp add: in_set_conv_nth)
      have "k \<le> m"
      proof (rule ccontr)
        assume "\<not> k \<le> m"
        then have "m < k" by simp
        then have "xs ! m < xs ! k" using ss k by (simp add: sorted_wrt_nth_less)
        with m j show False by simp
      qed
      then show "j \<in> set (drop k xs)"
        using m by (auto simp add: in_set_conv_nth intro!: exI [of _ "m - k"])
    qed
    have "nc - xs ! k = card {xs ! k..<nc}" by simp
    also have "\<dots> \<le> card (set (drop k xs))" by (rule card_mono [OF _ sub]) simp
    also have "\<dots> \<le> length (drop k xs)" by (rule card_length)
    finally have "nc - xs ! k \<le> ?n - k" by simp
    with upper xk k have "xs ! k + (?n - 1 - k) = nc - 1" by simp
    then show "a ! k = np_max a" by (simp add: eq_iff)
  qed
qed

lemma run_implies_flagged: "i < nc \<Longrightarrow> list_all P [i..<nc] \<Longrightarrow> P i \<and> P (nc - 1)"
  by (simp add: list_all_iff)

lemma outside_channels_trailing_run:
  assumes len: "length lf = nc"
  shows "outside_channels nc lf = spec_trailing_run nc (\<lambda>j. lf ! j < - 0.75)"
proof -
  let ?P = "\<lambda>j. lf ! j < - 0.75"
  let ?Q = "\<lambda>i. list_all ?P [i..<nc]"
  let ?xs = "filter ?P [0..<nc]"
  let ?a = "np_cumsum (0 # map (\<lambda>d. d - 1) (np_diff (map int ?xs)))"
  have w: "np_where (map (\<lambda>v. v < - 0.75) lf) = ?xs"
    by (simp add: np_where_map len)
  have PQ: "filter ?Q ?xs = filter ?Q [0..<nc]"
    unfolding filter_filter
    by (rule filter_cong) (auto dest: run_implies_flagged)
  show ?thesis
  proof (cases "?xs \<noteq> [] \<and> int (last ?xs) = int nc - 1")
    case True
    then have ne: "?xs \<noteq> []" and lst: "last ?xs = nc - 1" by auto
    have la: "length ?a = length ?xs"
      using ne by (simp add: gap_count_length)
    have "outside_channels nc lf = map fst (filter (\<lambda>(i, ai). ai = np_max ?a) (zip ?xs ?a))"
      unfolding outside_channels_def w using True by (simp add: Let_def)
    also have "\<dots> = map (\<lambda>k. ?xs ! k) (filter (\<lambda>k. ?a ! k = np_max ?a) [0..<length ?xs])"
      by (rule zip_filter_by_index [OF la])
    also have "filter (\<lambda>k. ?a ! k = np_max ?a) [0..<length ?xs] =
               filter (\<lambda>k. ?Q (?xs ! k)) [0..<length ?xs]"
    proof (rule filter_cong [OF refl])
      fix k assume "k \<in> set [0..<length ?xs]"
      then have "k < length ?xs" by simp
      then show "(?a ! k = np_max ?a) = ?Q (?xs ! k)"
        by (rule trailing_run_by_gap_count [OF refl ne lst _ refl])
    qed
    also have "map (\<lambda>k. ?xs ! k) (filter (\<lambda>k. ?Q (?xs ! k)) [0..<length ?xs]) =
               filter ?Q (map (\<lambda>k. ?xs ! k) [0..<length ?xs])"
      by (simp add: filter_map comp_def)
    also have "map (\<lambda>k. ?xs ! k) [0..<length ?xs] = ?xs"
      by (rule map_nth)
    finally show ?thesis
      by (simp only: PQ spec_trailing_run_def)
  next
    case False
    have "filter ?Q [0..<nc] = []"
    proof (rule ccontr)
      assume "filter ?Q [0..<nc] \<noteq> []"
      then obtain i where "i < nc" "?Q i"
        by (auto simp add: filter_empty_conv)
      then have "0 < nc" "?P (nc - 1)"
        using run_implies_flagged [of i nc ?P] by simp_all
      then have "?xs \<noteq> [] \<and> last ?xs = nc - 1" by (rule last_flagged)
      with \<open>0 < nc\<close> have "?xs \<noteq> [] \<and> int (last ?xs) = int nc - 1" by (simp add: of_nat_diff)
      with False show False by simp
    qed
    moreover have "outside_channels nc lf = []"
      unfolding outside_channels_def w Let_def using False by (simp only: if_False)
    ultimately show ?thesis by (simp add: spec_trailing_run_def)
  qed
qed

text \<open>Of 10 channels with 6, 7 and 9 flagged the trailing run is 9 alone; with 7, 8 and 9
  flagged it is all three; with 7 and 8 flagged it is empty.\<close>

lemma run_679: "spec_trailing_run 10 (\<lambda>j. [0, 0, 0, 0, 0, 0, - 1, - 1, 0, - 1 :: real] ! j < - 0.75) = [9]"
  by code_simp

lemma run_789: "spec_trailing_run 10 (\<lambda>j. [0, 0, 0, 0, 0, 0, 0, - 1, - 1, - 1 :: real] ! j < - 0.75) = [7, 8, 9]"
  by code_simp

lemma run_78: "spec_trailing_run 10 (\<lambda>j. [0, 0, 0, 0, 0, 0, 0, - 1, - 1, 0 :: real] ! j < - 0.75) = []"
  by code_simp

subsection \<open>Noisy after dead\<close>

lemma noisy_after_dead:
  assumes len: "length (xcor_hf xf) = nc" "length (psd_hf xf) = nc"
    and i: "i < nc"
    and noisy: "gt_nan (psd_hf xf ! i) psd_hf_threshold \<or> xcor_hf xf ! i > snd similarity_threshold"
  shows "make_recommendation nc psd_hf_threshold similarity_threshold xf ! i = 2"
proof -
  have "i \<in> set (np_where (map2 (\<lambda>p x. gt_nan p psd_hf_threshold \<or> x > snd similarity_threshold)
                               (psd_hf xf) (xcor_hf xf)))"
    using len i noisy by (simp add: set_np_where)
  then show ?thesis
    using i by (simp add: make_recommendation_def Let_def nth_assign length_assign)
qed

lemma length_columns: "length (columns raw) = num_cols raw"
  by (simp add: columns_def)

lemma num_cols_center: "num_cols (center_columns raw) = num_cols raw"
  by (cases raw) (simp_all add: center_columns_def num_cols_def Let_def length_columns)

lemma those_length: "those xs = Some v \<Longrightarrow> length v = length xs"
  by (induction xs arbitrary: v) (auto split: option.splits)

lemma nxcor_length: "nxcor x ref = Inr r \<Longrightarrow> length r = num_cols x"
  by (auto simp add: nxcor_def fxcor_def fxcor2_def Let_def length_columns num_cols_center
      split: sum.splits if_splits)

lemma channel_similarity_length: "channel_similarity raw = Inr v \<Longrightarrow> length v = num_cols raw"
  by (auto simp add: channel_similarity_def Let_def split: sum.splits if_splits option.splits
      dest!: those_length nxcor_length)

lemma detrend_length: "detrend x nmed = Inr d \<Longrightarrow> length d = length x"
  by (auto simp add: detrend_def np_sub_def Let_def split: list.splits sum.splits if_splits)

lemma err_bind_Inr: "err_bind r f = Inr y \<Longrightarrow> \<exists>v. r = Inr v \<and> f v = Inr y"
  by (cases r) (simp_all add: err_bind_def)

text \<open>
  Claim C4. In the labels \<^verbatim>\<open>detect_bad_channels_ibl\<close> returns, a channel that meets
  the dead condition (\<^verbatim>\<open>xcor_hf\<close> below the low threshold) and the noisy condition
  (\<^verbatim>\<open>psd_hf\<close> above its threshold, or \<^verbatim>\<open>xcor_hf\<close> above the high threshold) is
  labelled 2, not 1: the noisy assignment is the last one.
\<close>

theorem noisy_overrides_dead:
  assumes run: "detect_bad_channels_ibl lib raw fs psd_hf_threshold similarity_threshold
                  scale_for_testing = Inr (labels, xf)"
    and i: "i < num_cols raw"
    and dead: "xcor_hf xf ! i < fst similarity_threshold"
    and noisy: "gt_nan (psd_hf xf ! i) psd_hf_threshold \<or>
                xcor_hf xf ! i > snd similarity_threshold"
  shows "labels ! i = 2 \<and> labels ! i \<noteq> 1"
proof -
  let ?raw = "center_columns raw"
  from run obtain xcor where xcor: "channel_similarity ?raw = Inr xcor"
    and rest: "(if \<not> allclose (map Some xcor) (channel_simiarlity_new ?raw) 0.0001
           then Inl AssertionError
           else
             let scale = scale_factor scale_for_testing;
                 w = welch lib fs (map (map (\<lambda>v. v * scale)) ?raw);
                 hf = highpass lib fs ?raw
             in err_bind (channel_similarity hf) (\<lambda>xcorf.
                err_bind (detrend xcor 11) (\<lambda>hfd.
                err_bind (detrend xcorf 11) (\<lambda>lfd.
                  let xf = \<lparr>ind = [0..<num_cols raw],
                            rms_raw = rms ?raw,
                            xcor_hf = hfd,
                            xcor_lf = map2 (\<lambda>a d. a - d - 1) xcorf lfd,
                            psd_hf = mean_psd_hf fs (num_cols raw) w\<rparr>
                  in Inr (make_recommendation (num_cols raw) psd_hf_threshold similarity_threshold xf, xf)))))
          = Inr (labels, xf)"
    unfolding detect_bad_channels_ibl_def Let_def by (auto dest!: err_bind_Inr)
  from rest obtain xcorf hfd lfd where
    hfd: "detrend xcor 11 = Inr hfd"
    and xf: "xcor_hf xf = hfd" "psd_hf xf = mean_psd_hf fs (num_cols raw)
               (welch lib fs (map (map (\<lambda>v. v * scale_factor scale_for_testing)) ?raw))"
    and labels: "labels = make_recommendation (num_cols raw) psd_hf_threshold similarity_threshold xf"
    by (auto simp add: Let_def split: if_splits dest!: err_bind_Inr)
  have l1: "length (xcor_hf xf) = num_cols raw"
    using channel_similarity_length [OF xcor] detrend_length [OF hfd] xf(1)
    by (simp add: num_cols_center)
  have l2: "length (psd_hf xf) = num_cols raw"
    unfolding xf(2) by (simp add: mean_psd_hf_def Let_def)
  show ?thesis
    unfolding labels using noisy_after_dead [OF l1 l2 i noisy] by simp
qed

text \<open>A chunk of one channel and two samples, with a spectrum above the threshold and a
  low threshold of 0.5 on the similarity: the channel is dead and noisy, and labelled 2.\<close>

lemma ex_center: "center_columns [[1], [-1]] = [[1], [-1]]"
  by code_simp

lemma ex_sim: "channel_similarity [[1], [-1]] = Inr [1]"
  by code_simp

lemma ex_sim_new: "channel_simiarlity_new [[1], [-1]] = [Some 1]"
  by code_simp

lemma ex_detrend: "detrend [1] 11 = Inr [0]"
  by code_simp

lemma ex_rms: "rms [[1], [-1]] = [1]"
  by (simp add: rms_def columns_def num_cols_def column_def mean_def)

lemma ex_rec: "make_recommendation (Suc 0) (1 / 50) (1 / 2, 1)
     \<lparr>ind = [0], rms_raw = [1], xcor_hf = [0], xcor_lf = [0], psd_hf = [Some 1]\<rparr> = [2]"
  by code_simp

theorem noisy_overrides_dead_witness:
  "detect_bad_channels_ibl \<lparr>welch = (\<lambda>fs x. ([fs], [[1]])), highpass = (\<lambda>fs x. x)\<rparr>
      [[1], [-1]] 30000 0.02 (0.5, 1) False
    = Inr ([2], \<lparr>ind = [0], rms_raw = [1], xcor_hf = [0], xcor_lf = [0], psd_hf = [Some 1]\<rparr>)
   \<and> (0::real) < fst (0.5::real, 1::real) \<and> gt_nan (Some 1) 0.02 \<and> [2::nat] ! 0 = 2"
proof -
  let ?lib = "\<lparr>welch = (\<lambda>fs x. ([fs], [[1]])), highpass = (\<lambda>fs x. x)\<rparr>"
  let ?xf = "\<lparr>ind = [0], rms_raw = [1], xcor_hf = [0], xcor_lf = [0], psd_hf = [Some 1]\<rparr>"
  have run: "detect_bad_channels_ibl ?lib [[1], [-1]] 30000 0.02 (0.5, 1) False = Inr ([2], ?xf)"
    by (simp add: detect_bad_channels_ibl_def ex_center ex_sim ex_sim_new ex_detrend ex_rms ex_rec
        err_bind_simps allclose_def isclose_def scale_factor_def mean_psd_hf_def num_cols_def
        column_def mean_def Let_def)
  have i: "0 < num_cols [[1], [-1]]" by (simp add: num_cols_def)
  have dead: "xcor_hf ?xf ! 0 < fst (0.5::real, 1::real)" by simp
  have noisy: "gt_nan (psd_hf ?xf ! 0) 0.02 \<or> xcor_hf ?xf ! 0 > snd (0.5::real, 1::real)"
    by (simp add: gt_nan_def)
  from noisy_overrides_dead [OF run i dead noisy] run show ?thesis
    by (simp add: gt_nan_def)
qed

subsection \<open>The mode over the chunks\<close>

text \<open>The position \<^verbatim>\<open>argmax\<close> returns is the first one that holds the largest count.\<close>

lemma argmax_first:
  assumes "cs \<noteq> []"
  shows "argmax cs < length cs \<and> cs ! argmax cs = Max (set cs) \<and>
         (\<forall>j < argmax cs. cs ! j \<noteq> Max (set cs))"
proof -
  let ?M = "Max (set cs)"
  let ?p = "\<lambda>c. c \<noteq> ?M"
  have M: "np_max cs = ?M" using assms by (rule np_max_Max)
  have "?M \<in> set cs" using assms by (intro Max_in) simp_all
  then have "takeWhile ?p cs \<noteq> cs" by (auto simp add: takeWhile_eq_all_conv)
  have lt: "length (takeWhile ?p cs) < length cs"
  proof (rule ccontr)
    assume "\<not> length (takeWhile ?p cs) < length cs"
    then have "length (takeWhile ?p cs) = length cs"
      using length_takeWhile_le [of ?p cs] by simp
    then have "takeWhile ?p cs = cs"
      using takeWhile_eq_take [of ?p cs] by simp
    with \<open>takeWhile ?p cs \<noteq> cs\<close> show False by simp
  qed
  then have "\<not> ?p (cs ! length (takeWhile ?p cs))" by (rule nth_length_takeWhile)
  moreover have "\<forall>j < length (takeWhile ?p cs). cs ! j \<noteq> ?M"
  proof (intro allI impI)
    fix j assume jl: "j < length (takeWhile ?p cs)"
    then have "takeWhile ?p cs ! j \<in> set (takeWhile ?p cs)" by (rule nth_mem)
    then have "?p (takeWhile ?p cs ! j)" by (rule set_takeWhileD [THEN conjunct2])
    then show "cs ! j \<noteq> ?M" using takeWhile_nth [OF jl] by simp
  qed
  ultimately show ?thesis using lt by (simp add: argmax_def M)
qed

text \<open>The mode of a non-empty row is one of its values, no value occurs more often, and
  every value that occurs as often is at least as large.\<close>

lemma scipy_mode_smallest_most_frequent:
  assumes "xs \<noteq> []"
  shows "\<exists>m. scipy_mode xs = Some m \<and> m \<in> set xs \<and>
             (\<forall>v. count_list xs v \<le> count_list xs m) \<and>
             (\<forall>v. count_list xs v = count_list xs m \<longrightarrow> m \<le> v)"
proof -
  let ?vals = "sort (remdups xs)"
  let ?cnts = "map (count_list xs) ?vals"
  let ?j = "argmax ?cnts"
  let ?m = "?vals ! ?j"
  have sv: "set ?vals = set xs" by simp
  have ne: "?cnts \<noteq> []" using assms by (metis sv Nil_is_map_conv set_empty)
  note af = argmax_first [OF ne]
  have j: "?j < length ?vals" using af by simp
  have cj: "?cnts ! ?j = Max (set ?cnts)" using af by blast
  have first: "?cnts ! i \<noteq> Max (set ?cnts)" if "i < ?j" for i using af that by blast
  have cm: "count_list xs ?m = Max (set ?cnts)" using j cj by simp
  have mem: "?m \<in> set xs" using j sv by (metis nth_mem)
  have le: "count_list xs v \<le> count_list xs ?m" for v
  proof (cases "v \<in> set xs")
    case True
    then have "count_list xs v \<in> set ?cnts" by (simp add: sv)
    then show ?thesis unfolding cm by (intro Max_ge) simp_all
  next
    case False
    then show ?thesis by (simp add: count_list_0_iff)
  qed
  have tie: "?m \<le> v" if "count_list xs v = count_list xs ?m" for v
  proof -
    have "count_list xs ?m \<noteq> 0" using mem by (simp add: count_list_0_iff)
    with that have "count_list xs v \<noteq> 0" by simp
    then have "v \<in> set ?vals" by (simp add: count_list_0_iff)
    then obtain i where i: "i < length ?vals" "?vals ! i = v"
      unfolding in_set_conv_nth by blast
    have "?cnts ! i = Max (set ?cnts)" using i that cm by simp
    then have "\<not> i < ?j" using first by blast
    then have "?j \<le> i" by simp
    then have "?vals ! ?j \<le> ?vals ! i"
      using i(1) by (intro sorted_nth_mono) simp_all
    then show ?thesis by (simp add: i)
  qed
  have "scipy_mode xs = Some ?m" using assms by (simp add: scipy_mode_def Let_def)
  with mem le tie show ?thesis by blast
qed

lemma mode_of_0_0_1: "scipy_mode [0, 0, 1] = Some 0"
  by code_simp

text \<open>The matrix of labels: after the loop, the row of a channel holds the label each
  chunk gave it, in the order of the chunks.\<close>

lemma set_column_entry:
  assumes "set_column m ncols i v = Inr m'" "length v = length m"
  shows "length m' = length m \<and>
         (\<forall>r < length m. length (m' ! r) = length (m ! r) \<and>
            (\<forall>c. m' ! r ! c = (if c = i \<and> i < length (m ! r) then v ! r else m ! r ! c)))"
  using assms by (auto simp add: set_column_def nth_list_update list_update_beyond split: if_splits)

lemma fill_labels_entry:
  assumes "fill_labels classify ncols i chunks m = Inr m'"
    and "\<forall>r < length m. length (m ! r) = ncols"
    and "\<forall>c \<in> set chunks. \<forall>l. classify c = Inr l \<longrightarrow> length l = length m"
  shows "length m' = length m \<and>
         (\<forall>r < length m. length (m' ! r) = ncols \<and>
            (\<forall>c < ncols. m' ! r ! c =
               (if i \<le> c \<and> c < i + length chunks
                then projr (classify (chunks ! (c - i))) ! r else m ! r ! c)))"
  using assms
proof (induction chunks arbitrary: i m)
  case Nil
  then show ?case by simp
next
  case (Cons ch rest)
  from Cons.prems(1) obtain labels m1 where
    cl: "classify ch = Inr labels" and sc: "set_column m ncols i labels = Inr m1"
    and fl: "fill_labels classify ncols (Suc i) rest m1 = Inr m'"
    by (auto dest!: err_bind_Inr)
  have ll: "length labels = length m" using Cons.prems(3) cl by simp
  note e = set_column_entry [OF sc ll]
  have i: "i < ncols" using sc by (auto simp add: set_column_def split: if_splits)
  have shape1: "\<forall>r < length m1. length (m1 ! r) = ncols"
    using e Cons.prems(2) by simp
  have cls1: "\<forall>c \<in> set rest. \<forall>l. classify c = Inr l \<longrightarrow> length l = length m1"
    using e Cons.prems(3) by simp
  note ih = Cons.IH [OF fl shape1 cls1]
  show ?case
  proof (intro conjI allI impI)
    show "length m' = length m" using ih e by simp
  next
    fix r assume r: "r < length m"
    then show "length (m' ! r) = ncols" using ih e by simp
  next
    fix r c assume r: "r < length m" and c: "c < ncols"
    have r1: "r < length m1" using r e by simp
    have "m' ! r ! c = (if Suc i \<le> c \<and> c < Suc i + length rest
                then projr (classify (rest ! (c - Suc i))) ! r else m1 ! r ! c)"
      using ih r1 c by blast
    moreover have "m1 ! r ! c = (if c = i then labels ! r else m ! r ! c)"
      using e r i Cons.prems(2) by simp
    ultimately show "m' ! r ! c =
               (if i \<le> c \<and> c < i + length (ch # rest)
                then projr (classify ((ch # rest) ! (c - i))) ! r else m ! r ! c)"
      using cl by (auto simp add: nth_Cons')
  qed
qed

lemma fill_labels_rows:
  assumes fill: "fill_labels classify ncols 0 chunks (replicate nch (replicate ncols 0)) = Inr m"
    and full: "length chunks = ncols"
    and shapes: "\<forall>c \<in> set chunks. \<forall>l. classify c = Inr l \<longrightarrow> length l = nch"
  shows "length m = nch \<and>
         (\<forall>r < nch. m ! r = map (\<lambda>c. projr (classify c) ! r) chunks)"
proof -
  let ?z = "replicate nch (replicate ncols (0::nat))"
  have a: "\<forall>r < length ?z. length (?z ! r) = ncols" by simp
  have b: "\<forall>c \<in> set chunks. \<forall>l. classify c = Inr l \<longrightarrow> length l = length ?z"
    using shapes by simp
  note e = fill_labels_entry [OF fill a b]
  have "m ! r = map (\<lambda>c. projr (classify c) ! r) chunks" if "r < nch" for r
  proof (rule nth_equalityI)
    show "length (m ! r) = length (map (\<lambda>c. projr (classify c) ! r) chunks)"
      using e that full by simp
  next
    fix c assume "c < length (m ! r)"
    then have c: "c < ncols" using e that by simp
    then show "m ! r ! c = map (\<lambda>c. projr (classify c) ! r) chunks ! c"
      using e that full by simp
  qed
  with e show ?thesis by simp
qed

lemma fill_labels_all_classified:
  assumes "fill_labels classify ncols i chunks m = Inr m'"
  shows "\<exists>ls. map classify chunks = map Inr ls"
  using assms
proof (induction chunks arbitrary: i m)
  case Nil
  then show ?case by simp
next
  case (Cons ch rest)
  from Cons.prems obtain labels m1 where
    cl: "classify ch = Inr labels"
    and fl: "fill_labels classify ncols (Suc i) rest m1 = Inr m'"
    by (auto dest!: err_bind_Inr)
  from Cons.IH [OF fl] obtain ls where "map classify rest = map Inr ls" by blast
  with cl have "map classify (ch # rest) = map Inr (labels # ls)" by simp
  then show ?case by blast
qed

lemma length_make_recommendation:
  "length (make_recommendation nc t s xf) = nc"
  by (simp add: make_recommendation_def Let_def length_assign)

lemma detect_bad_channels_ibl_length:
  assumes "detect_bad_channels_ibl lib raw fs t s sc = Inr (labels, xf)"
  shows "length labels = num_cols raw"
proof -
  from assms obtain xf' where
    "labels = make_recommendation (num_cols raw) t s xf'"
    unfolding detect_bad_channels_ibl_def Let_def
    by (auto split: if_splits dest!: err_bind_Inr)
  then show ?thesis by (simp add: length_make_recommendation)
qed

lemma chunk_labels_length:
  assumes "chunk_labels lib fs t s sc c = Inr l"
  shows "length l = num_cols c"
  using assms unfolding chunk_labels_def
  by (auto dest!: err_bind_Inr dest: detect_bad_channels_ibl_length)

text \<open>
  Claim C6. When \<^verbatim>\<open>detect_bad_channels\<close> returns, on chunks that the sampler gave in the
  number the matrix has columns for and with one column per channel, the final flag of
  every channel is the mode of the labels the chunks gave that channel: a label that
  occurs among them, that no label outnumbers, and that is the lowest of those that occur
  as often. (A result is only returned with a threshold and a dictionary given.)
\<close>

theorem final_flag_is_mode_across_chunks:
  assumes run: "detect_bad_channels lib sampler rec (Some t) sim (Some u) = Inr d"
    and kw: "handle_random_chunk_kwargs rec (Some u) = Inr (kw, sc)"
    and sampled: "sampler rec kw = Inr chunks"
    and count: "num_label_columns rec kw = Inr (length chunks)"
    and shape: "\<forall>c \<in> set chunks. num_cols c = num_channels rec"
    and some: "chunks \<noteq> []"
    and r: "r < num_channels rec"
  shows "\<exists>ls f. map (chunk_labels lib (sampling_frequency rec) t sim sc) chunks = map Inr ls \<and>
           channel_flags d ! r = Some f \<and>
           f \<in> set (map (\<lambda>l. l ! r) ls) \<and>
           (\<forall>v. count_list (map (\<lambda>l. l ! r) ls) v \<le> count_list (map (\<lambda>l. l ! r) ls) f) \<and>
           (\<forall>v. count_list (map (\<lambda>l. l ! r) ls) v = count_list (map (\<lambda>l. l ! r) ls) f
                 \<longrightarrow> f \<le> v)"
proof -
  let ?classify = "chunk_labels lib (sampling_frequency rec) t sim sc"
  let ?nch = "num_channels rec"
  from run obtain m where
    fill: "fill_labels ?classify (length chunks) 0 chunks
             (replicate ?nch (replicate (length chunks) 0)) = Inr m"
    and agg: "aggregate rec m = Inr d"
    unfolding detect_bad_channels_def
    by (auto simp add: kw sampled count err_bind_simps dest!: err_bind_Inr)
  from fill_labels_all_classified [OF fill] obtain ls where
    ls: "map ?classify chunks = map Inr ls" by blast
  then have len: "length ls = length chunks" by (metis length_map)
  have shapes: "\<forall>c \<in> set chunks. \<forall>l. ?classify c = Inr l \<longrightarrow> length l = ?nch"
    using shape by (auto dest: chunk_labels_length)
  from fill_labels_rows [OF fill refl shapes] r
  have lm: "length m = ?nch" and row: "m ! r = map (\<lambda>c. projr (?classify c) ! r) chunks"
    by simp_all
  have "map (\<lambda>c. projr (?classify c) ! r) chunks = map (\<lambda>l. l ! r) ls"
  proof (rule nth_equalityI)
    show "length (map (\<lambda>c. projr (?classify c) ! r) chunks) = length (map (\<lambda>l. l ! r) ls)"
      using len by simp
  next
    fix i assume "i < length (map (\<lambda>c. projr (?classify c) ! r) chunks)"
    then have i: "i < length chunks" by simp
    then have "map ?classify chunks ! i = map Inr ls ! i" using ls by simp
    then have "?classify (chunks ! i) = Inr (ls ! i)" using i len by simp
    then show "map (\<lambda>c. projr (?classify c) ! r) chunks ! i = map (\<lambda>l. l ! r) ls ! i"
      using i len by simp
  qed
  with row have row': "m ! r = map (\<lambda>l. l ! r) ls" by simp
  have ne: "map (\<lambda>l. l ! r) ls \<noteq> []" using some len by auto
  from agg have "channel_flags d = map scipy_mode m"
    unfolding aggregate_def Let_def by (auto dest!: err_bind_Inr)
  then have "channel_flags d ! r = scipy_mode (map (\<lambda>l. l ! r) ls)"
    using r lm row' by simp
  with scipy_mode_smallest_most_frequent [OF ne] ls show ?thesis by auto
qed

text \<open>
  Three chunks of three channels and two samples; in the third the middle channel is
  opposed to the others and comes out dead, so its labels over the chunks are 0, 0, 1 and
  its final flag is 0.
\<close>

lemma g_center: "center_columns [[1, 1, 1], [- 1, - 1, - 1]] = [[1, 1, 1], [- 1, - 1, - 1]]"
  by code_simp

lemma d_center: "center_columns [[1, - 1, 1], [- 1, 1, - 1]] = [[1, - 1, 1], [- 1, 1, - 1]]"
  by code_simp

lemma g_sim: "channel_similarity [[1, 1, 1], [- 1, - 1, - 1]] = Inr [1, 1, 1]"
  by code_simp

lemma d_sim: "channel_similarity [[1, - 1, 1], [- 1, 1, - 1]] = Inr [1, - 1, 1]"
  by code_simp

lemma g_sim_new: "channel_simiarlity_new [[1, 1, 1], [- 1, - 1, - 1]] = [Some 1, Some 1, Some 1]"
  by code_simp

lemma d_sim_new: "channel_simiarlity_new [[1, - 1, 1], [- 1, 1, - 1]] = [Some 1, Some (- 1), Some 1]"
  by code_simp

lemma g_detrend: "detrend [1, 1, 1] 11 = Inr [0, 0, 0]"
  by code_simp

lemma d_detrend: "detrend [1, - 1, 1] 11 = Inr [0, - 2, 0]"
  by code_simp

lemma g_rms: "rms [[1, 1, 1], [- 1, - 1, - 1]] = [1, 1, 1]"
  by (simp add: rms_def columns_def num_cols_def column_def mean_def)

lemma d_rms: "rms [[1, - 1, 1], [- 1, 1, - 1]] = [1, 1, 1]"
  by (simp add: rms_def columns_def num_cols_def column_def mean_def)

lemma chunk_labels_eval:
  assumes "center_columns raw0 = raw"
    and "channel_similarity raw = Inr xcor"
    and "allclose (map Some xcor) (channel_simiarlity_new raw) 0.0001"
    and "channel_similarity (highpass lib fs raw) = Inr xcorf"
    and "detrend xcor 11 = Inr hfd"
    and "detrend xcorf 11 = Inr lfd"
    and "\<lparr>ind = [0..<num_cols raw0],
          rms_raw = rms raw,
          xcor_hf = hfd,
          xcor_lf = map2 (\<lambda>a d. a - d - 1) xcorf lfd,
          psd_hf = mean_psd_hf fs (num_cols raw0)
                     (welch lib fs (map (map (\<lambda>v. v * scale_factor sc)) raw))\<rparr> = xf"
    and "make_recommendation (num_cols raw0) thr sim xf = labels"
  shows "chunk_labels lib fs thr sim sc raw0 = Inr labels"
  using assms(2-) unfolding chunk_labels_def detect_bad_channels_ibl_def Let_def assms(1)
  by (simp add: err_bind_simps)

lemma g_rec: "make_recommendation (num_cols [[1, 1, 1], [- 1, - 1, - 1]]) 1 (- 1, 1)
     \<lparr>ind = [0, 1, 2], rms_raw = [1, 1, 1], xcor_hf = [0, 0, 0], xcor_lf = [0, 0, 0],
        psd_hf = [Some 0, Some 0, Some 0]\<rparr> = [0, 0, 0]"
  by code_simp

lemma d_rec: "make_recommendation (num_cols [[1, - 1, 1], [- 1, 1, - 1]]) 1 (- 1, 1)
     \<lparr>ind = [0, 1, 2], rms_raw = [1, 1, 1], xcor_hf = [0, - 2, 0], xcor_lf = [0, 0, 0],
        psd_hf = [Some 0, Some 0, Some 0]\<rparr> = [0, 1, 0]"
  by code_simp

lemma upt3: "[0..<3] = [0, 1, 2]"
  by code_simp

lemma g_labels:
  "chunk_labels \<lparr>welch = (\<lambda>fs x. ([fs], [[0, 0, 0]])), highpass = (\<lambda>fs x. x)\<rparr> 30000 1 (- 1, 1) False
     [[1, 1, 1], [- 1, - 1, - 1]] = Inr [0, 0, 0]"
proof (rule chunk_labels_eval [OF g_center _ _ _ g_detrend g_detrend _ g_rec])
  show "channel_similarity [[1, 1, 1], [- 1, - 1, - 1]] = Inr [1, 1, 1]" by (rule g_sim)
  show "allclose (map Some [1, 1, 1]) (channel_simiarlity_new [[1, 1, 1], [- 1, - 1, - 1]]) 0.0001"
    by (simp add: g_sim_new allclose_def isclose_def)
  show "channel_similarity
     (highpass \<lparr>welch = (\<lambda>fs x. ([fs], [[0, 0, 0]])), highpass = (\<lambda>fs x. x)\<rparr> 30000 [[1, 1, 1], [- 1, - 1, - 1]])
      = Inr [1, 1, 1]" by (simp add: g_sim)
  show "\<lparr>ind = [0..<num_cols [[1, 1, 1], [- 1, - 1, - 1]]],
          rms_raw = rms [[1, 1, 1], [- 1, - 1, - 1]],
          xcor_hf = [0, 0, 0],
          xcor_lf = map2 (\<lambda>a d. a - d - 1) [1, 1, 1] [0, 0, 0],
          psd_hf = mean_psd_hf 30000 (num_cols [[1, 1, 1], [- 1, - 1, - 1]])
                     (welch \<lparr>welch = (\<lambda>fs x. ([fs], [[0, 0, 0]])), highpass = (\<lambda>fs x. x)\<rparr> 30000
                        (map (map (\<lambda>v. v * scale_factor False)) [[1, 1, 1], [- 1, - 1, - 1]]))\<rparr>
        = \<lparr>ind = [0, 1, 2], rms_raw = [1, 1, 1], xcor_hf = [0, 0, 0], xcor_lf = [0, 0, 0],
        psd_hf = [Some 0, Some 0, Some 0]\<rparr>"
    by (simp add: g_rms num_cols_def upt3 mean_psd_hf_def column_def mean_def)
qed

lemma d_labels:
  "chunk_labels \<lparr>welch = (\<lambda>fs x. ([fs], [[0, 0, 0]])), highpass = (\<lambda>fs x. x)\<rparr> 30000 1 (- 1, 1) False
     [[1, - 1, 1], [- 1, 1, - 1]] = Inr [0, 1, 0]"
proof (rule chunk_labels_eval [OF d_center _ _ _ d_detrend d_detrend _ d_rec])
  show "channel_similarity [[1, - 1, 1], [- 1, 1, - 1]] = Inr [1, - 1, 1]" by (rule d_sim)
  show "allclose (map Some [1, - 1, 1]) (channel_simiarlity_new [[1, - 1, 1], [- 1, 1, - 1]]) 0.0001"
    by (simp add: d_sim_new allclose_def isclose_def)
  show "channel_similarity
     (highpass \<lparr>welch = (\<lambda>fs x. ([fs], [[0, 0, 0]])), highpass = (\<lambda>fs x. x)\<rparr> 30000 [[1, - 1, 1], [- 1, 1, - 1]])
      = Inr [1, - 1, 1]" by (simp add: d_sim)
  show "\<lparr>ind = [0..<num_cols [[1, - 1, 1], [- 1, 1, - 1]]],
          rms_raw = rms [[1, - 1, 1], [- 1, 1, - 1]],
          xcor_hf = [0, - 2, 0],
          xcor_lf = map2 (\<lambda>a d. a - d - 1) [1, - 1, 1] [0, - 2, 0],
          psd_hf = mean_psd_hf 30000 (num_cols [[1, - 1, 1], [- 1, 1, - 1]])
                     (welch \<lparr>welch = (\<lambda>fs x. ([fs], [[0, 0, 0]])), highpass = (\<lambda>fs x. x)\<rparr> 30000
                        (map (map (\<lambda>v. v * scale_factor False)) [[1, - 1, 1], [- 1, 1, - 1]]))\<rparr>
        = \<lparr>ind = [0, 1, 2], rms_raw = [1, 1, 1], xcor_hf = [0, - 2, 0], xcor_lf = [0, 0, 0],
        psd_hf = [Some 0, Some 0, Some 0]\<rparr>"
    by (simp add: d_rms num_cols_def upt3 mean_psd_hf_def column_def mean_def)
qed

lemma ex_aggregate:
  "aggregate \<lparr>num_channels = 3, num_segments = 1, sampling_frequency = 30000,
              channel_ids = [''a'', ''b'', ''c'']\<rparr> [[0, 0, 0], [0, 0, 1], [0, 0, 0]] =
     Inr \<lparr>bad_inds = [], bad_channel_ids = [], channel_flags = [Some 0, Some 0, Some 0],
          warned = False\<rparr>"
  by code_simp

lemma ex_fill:
  "fill_labels
     (chunk_labels \<lparr>welch = (\<lambda>fs x. ([fs], [[0, 0, 0]])), highpass = (\<lambda>fs x. x)\<rparr> 30000 1 (- 1, 1) False)
     3 0 [[[1, 1, 1], [- 1, - 1, - 1]], [[1, 1, 1], [- 1, - 1, - 1]], [[1, - 1, 1], [- 1, 1, - 1]]]
     [[0, 0, 0], [0, 0, 0], [0, 0, 0]] = Inr [[0, 0, 0], [0, 0, 1], [0, 0, 0]]"
  by (simp add: g_labels d_labels err_bind_simps set_column_def)

theorem final_flag_is_mode_across_chunks_witness:
  "detect_bad_channels
     \<lparr>welch = (\<lambda>fs x. ([fs], [[0, 0, 0]])), highpass = (\<lambda>fs x. x)\<rparr>
     (\<lambda>r k. Inr [[[1, 1, 1], [- 1, - 1, - 1]], [[1, 1, 1], [- 1, - 1, - 1]],
                 [[1, - 1, 1], [- 1, 1, - 1]]])
     \<lparr>num_channels = 3, num_segments = 1, sampling_frequency = 30000,
        channel_ids = [''a'', ''b'', ''c'']\<rparr>
     (Some 1) (- 1, 1) (Some [''num_chunks_per_segment'' \<mapsto> PyInt 3]) =
     Inr \<lparr>bad_inds = [], bad_channel_ids = [], channel_flags = [Some 0, Some 0, Some 0],
          warned = False\<rparr>
   \<and> (\<exists>f. [Some 0, Some 0, Some (0::nat)] ! 1 = Some f \<and> f \<in> set [0, 0, 1] \<and>
           (\<forall>v. count_list [0, 0, 1::nat] v \<le> count_list [0, 0, 1] f) \<and>
           (\<forall>v. count_list [0, 0, 1::nat] v = count_list [0, 0, 1] f \<longrightarrow> f \<le> v))"
proof -
  let ?lib = "\<lparr>welch = (\<lambda>fs x. ([fs], [[0, 0, 0]])), highpass = (\<lambda>fs (x::chunk). x)\<rparr>"
  let ?chunks = "[[[1, 1, 1], [- 1, - 1, - 1]], [[1, 1, 1], [- 1, - 1, - 1]],
                  [[1, - 1, 1], [- 1, 1, - 1 :: real]]]"
  let ?sampler = "\<lambda>(r::recording) (k::kwargs). (Inr ?chunks :: error + chunk list)"
  let ?rec = "\<lparr>num_channels = 3, num_segments = 1, sampling_frequency = 30000,
                channel_ids = [''a'', ''b'', ''c'']\<rparr>"
  let ?u = "[''num_chunks_per_segment'' \<mapsto> PyInt 3]"
  let ?kw = "default_random_chunk_kwargs ?rec ++ ?u"
  let ?d = "\<lparr>bad_inds = [], bad_channel_ids = [], channel_flags = [Some 0, Some 0, Some 0],
              warned = False\<rparr>"
  have kw: "handle_random_chunk_kwargs ?rec (Some ?u) = Inr (?kw, False)"
    by (simp add: handle_random_chunk_kwargs_def py_in_def handle_test_case_def
        default_random_chunk_kwargs_def)
  have sampled: "?sampler ?rec ?kw = Inr ?chunks" by simp
  have count: "num_label_columns ?rec ?kw = Inr (length ?chunks)"
    by (simp add: num_label_columns_def)
  have shape: "\<forall>c \<in> set ?chunks. num_cols c = num_channels ?rec"
    by (simp add: num_cols_def)
  have some: "?chunks \<noteq> []" by simp
  have r: "1 < num_channels ?rec" by simp
  have z: "replicate 3 (replicate 3 (0::nat)) = [[0, 0, 0], [0, 0, 0], [0, 0, 0]]"
    by code_simp
  have run: "detect_bad_channels ?lib ?sampler ?rec (Some 1) (- 1, 1) (Some ?u) = Inr ?d"
  proof -
    have count3: "num_label_columns ?rec ?kw = Inr 3"
      by (simp add: num_label_columns_def)
    show ?thesis
      unfolding detect_bad_channels_def
      by (simp only: option.case err_bind_simps kw prod.case count3 recording.select_convs
          z ex_fill ex_aggregate)
  qed
  have labels: "map (chunk_labels ?lib (sampling_frequency ?rec) 1 (- 1, 1) False) ?chunks =
          map Inr [[0, 0, 0], [0, 0, 0], [0, 1, 0]]"
    by (simp add: g_labels d_labels)
  from final_flag_is_mode_across_chunks [OF run kw sampled count shape some r]
  obtain ls f where
    ls: "map (chunk_labels ?lib (sampling_frequency ?rec) 1 (- 1, 1) False) ?chunks = map Inr ls"
    and f: "channel_flags ?d ! 1 = Some f" "f \<in> set (map (\<lambda>l. l ! 1) ls)"
      "\<forall>v. count_list (map (\<lambda>l. l ! 1) ls) v \<le> count_list (map (\<lambda>l. l ! 1) ls) f"
      "\<forall>v. count_list (map (\<lambda>l. l ! 1) ls) v = count_list (map (\<lambda>l. l ! 1) ls) f \<longrightarrow> f \<le> v"
    by blast
  from ls labels have "map Inr ls = (map Inr [[0, 0, 0], [0, 0, 0], [0, 1, 0]] :: (error + nat list) list)"
    by simp
  then have "ls = [[0, 0, 0], [0, 0, 0], [0, 1, 0]]"
    by (rule map_injective) (simp add: inj_on_def)
  then have row: "map (\<lambda>l. l ! 1) ls = [0, 0, 1]" by simp
  have c1: "[Some 0, Some 0, Some (0::nat)] ! 1 = Some f"
    using f(1) by (simp only: detection.select_convs)
  note c2 = f(2-4) [unfolded row]
  from c1 c2 have "\<exists>f. [Some 0, Some 0, Some (0::nat)] ! 1 = Some f \<and> f \<in> set [0, 0, 1] \<and>
           (\<forall>v. count_list [0, 0, 1::nat] v \<le> count_list [0, 0, 1] f) \<and>
           (\<forall>v. count_list [0, 0, 1::nat] v = count_list [0, 0, 1] f \<longrightarrow> f \<le> v)"
    by (intro exI [of _ f] conjI)
  with run show ?thesis by (rule conjI)
qed

subsection \<open>Detrend\<close>

text \<open>For an odd window the taper \<^verbatim>\<open>int(np.ceil(nmed / 2))\<close> is one more than half the
  window, so no window that survives the trimming reaches the zeros of the filter.\<close>

lemma ntap_odd: "odd nmed \<Longrightarrow> nat \<lceil>real nmed / 2\<rceil> = nmed div 2 + 1"
proof -
  assume "odd nmed"
  then obtain k where k: "nmed = 2 * k + 1" by (auto elim: oddE)
  have "\<lceil>real nmed / 2\<rceil> = int k + 1"
    unfolding k by (rule ceiling_unique) (simp_all add: field_simps)
  then show ?thesis by (simp add: k)
qed

lemma padded_nth:
  assumes "x \<noteq> []" "q < length x + 2 * t"
  shows "(replicate t (hd x) @ x @ replicate t (last x)) ! q = edge_value x (int q - int t)"
proof -
  consider "q < t" | "t \<le> q" "q < t + length x" | "t + length x \<le> q" by linarith
  then show ?thesis
  proof cases
    case 1
    then have idx: "nat (max 0 (min (int (length x) - 1) (int q - int t))) = 0" by linarith
    show ?thesis unfolding edge_value_def idx using 1 assms(1)
      by (simp add: nth_append hd_conv_nth)
  next
    case 2
    then have idx: "nat (max 0 (min (int (length x) - 1) (int q - int t))) = q - t" by linarith
    from 2 have "q - t < length x" by linarith
    then show ?thesis unfolding edge_value_def idx using 2 by (simp add: nth_append)
  next
    case 3
    then have idx: "nat (max 0 (min (int (length x) - 1) (int q - int t))) = length x - 1"
      using assms(1) by (cases x) simp_all
    from 3 assms(2) have "\<not> q < t" "\<not> q - t < length x" "q - (t + length x) < t"
      by linarith+
    then show ?thesis unfolding edge_value_def idx using assms(1)
      by (simp add: nth_append last_conv_nth)
  qed
qed

lemma zget_in_range: "q < length xs \<Longrightarrow> zget xs (int q) = xs ! q"
  by (simp add: zget_def)

lemma window_of_padded:
  assumes x: "x \<noteq> []" and w: "nmed = 2 * k + 1" and i: "i < length x"
  shows "window (replicate (k + 1) (hd x) @ x @ replicate (k + 1) (last x)) nmed (i + (k + 1)) =
         map (\<lambda>j. edge_value x (int i + int j - int k)) [0..<nmed]"
proof -
  let ?t = "k + 1"
  let ?xf = "replicate ?t (hd x) @ x @ replicate ?t (last x)"
  have k: "nmed div 2 = k" using w by simp
  have "zget ?xf (int (i + ?t) + int j - int k) = edge_value x (int i + int j - int k)"
    if j: "j < nmed" for j
  proof -
    have "j \<le> 2 * k" using j w by simp
    with i have q: "i + 1 + j < length x + 2 * ?t" by simp
    have e: "int (i + ?t) + int j - int k = int (i + 1 + j)" by simp
    have "i + 1 + j < length ?xf" using q by simp
    then have "zget ?xf (int (i + ?t) + int j - int k) = ?xf ! (i + 1 + j)"
      unfolding e by (rule zget_in_range)
    also have "\<dots> = edge_value x (int (i + 1 + j) - int ?t)"
      using x q by (rule padded_nth)
    also have "int (i + 1 + j) - int ?t = int i + int j - int k" by simp
    finally show ?thesis .
  qed
  then show ?thesis unfolding window_def k by (intro map_cong) simp_all
qed

lemma slice_trim_middle:
  assumes "length m = n + 2 * t" "0 < t"
  shows "length (slice_trim m t t) = n \<and> (\<forall>i < n. slice_trim m t t ! i = m ! (i + t))"
  using assms by (simp add: slice_trim_def add.commute)

lemma detrend_is_spec_detrend:
  assumes x: "x \<noteq> []" and odd: "odd nmed"
  shows "detrend x nmed = Inr (spec_detrend x nmed)"
proof -
  from odd obtain k where w: "nmed = 2 * k + 1" by (auto elim: oddE)
  then have k: "nmed div 2 = k" by simp
  let ?t = "k + 1"
  let ?n = "length x"
  let ?xf = "replicate ?t (hd x) @ x @ replicate ?t (last x)"
  let ?m = "map (\<lambda>i. sort (window ?xf nmed i) ! k) [0..<length ?xf]"
  have ntap: "nat \<lceil>real nmed / 2\<rceil> = ?t" using ntap_odd [OF odd] k by simp
  have m: "medfilt ?xf nmed = Inr ?m"
    using odd k by (simp add: medfilt_def odd_iff_mod_2_eq_one)
  have lm: "length ?m = ?n + 2 * ?t" by simp
  note st = slice_trim_middle [OF lm, of] 
  have trim: "slice_trim ?m ?t ?t = map (\<lambda>i. running_median x nmed i) [0..<?n]"
  proof (rule nth_equalityI)
    show "length (slice_trim ?m ?t ?t) = length (map (\<lambda>i. running_median x nmed i) [0..<?n])"
      using st by simp
  next
    fix i assume "i < length (slice_trim ?m ?t ?t)"
    then have i: "i < ?n" using st by simp
    then have "slice_trim ?m ?t ?t ! i = ?m ! (i + ?t)" using st by simp
    also have "\<dots> = sort (window ?xf nmed (i + ?t)) ! k"
    proof -
      have lt: "i + ?t < length ?xf" using i by simp
      then have "i + ?t < length [0..<length ?xf]" by simp
      then have "?m ! (i + ?t) =
          sort (window ?xf nmed ([0..<length ?xf] ! (i + ?t))) ! k" by (rule nth_map)
      moreover have "[0..<length ?xf] ! (i + ?t) = i + ?t"
        using nth_upt [of 0 "i + ?t" "length ?xf"] lt by simp
      ultimately show ?thesis by simp
    qed
    also have "\<dots> = running_median x nmed i"
      unfolding window_of_padded [OF x w i] running_median_def k ..
    finally show "slice_trim ?m ?t ?t ! i = map (\<lambda>i. running_median x nmed i) [0..<?n] ! i"
      using i by simp
  qed
  obtain x0 xs where c: "x = x0 # xs" using x by (cases x) auto
  have "detrend x nmed = np_sub x (slice_trim ?m ?t ?t)"
    using m unfolding detrend_def ntap Let_def c by simp
  also have "\<dots> = Inr (map2 (-) x (map (\<lambda>i. running_median x nmed i) [0..<?n]))"
    unfolding trim by (simp add: np_sub_def)
  also have "map2 (-) x (map (\<lambda>i. running_median x nmed i) [0..<?n]) = spec_detrend x nmed"
    unfolding spec_detrend_def by (rule nth_equalityI) simp_all
  finally show ?thesis .
qed

lemma edge_value_replicate: "0 < n \<Longrightarrow> edge_value (replicate n c) p = c"
proof -
  assume n: "0 < n"
  then have "nat (max 0 (min (int n - 1) p)) < n" by linarith
  then show ?thesis by (simp add: edge_value_def)
qed

lemma running_median_constant:
  assumes "0 < n" "odd w"
  shows "running_median (replicate n c) w i = c"
proof -
  have "map (\<lambda>j. edge_value (replicate n c) (int i + int j - int (w div 2))) [0..<w] =
        replicate w c"
    using assms(1) by (simp add: edge_value_replicate map_replicate_const)
  moreover have "sort (replicate w c) = replicate w c"
    by (rule sort_key_id_if_sorted) (simp add: sorted_replicate)
  moreover have "w div 2 < w" using assms(2) by (auto elim: oddE)
  ultimately show ?thesis by (simp add: running_median_def)
qed

lemma spec_detrend_constant:
  assumes "0 < n" "odd w"
  shows "spec_detrend (replicate n c) w = replicate n 0"
  unfolding spec_detrend_def
  by (rule nth_equalityI) (simp_all add: running_median_constant [OF assms])

lemma detrend_empty: "detrend [] nmed = Inl IndexError"
  by (simp add: detrend_def)

lemma detrend_even_window: "x \<noteq> [] \<Longrightarrow> even nmed \<Longrightarrow> detrend x nmed = Inl ValueError"
  by (cases x) (simp_all add: detrend_def medfilt_def Let_def)

text \<open>
  Claim C7. For a vector of at least one sample and an odd window, \<^verbatim>\<open>detrend\<close> returns
  the vector minus its running median, with the first and the last value standing for the
  samples beyond the ends (not zeros); the result has the length of the input; and of a
  constant vector it is the all-zero vector of that length. (The source fails on an empty
  vector, which has no first value, and scipy refuses an even window.)
\<close>

theorem detrend_subtracts_running_median:
  assumes x: "x \<noteq> []" and odd: "odd nmed"
  shows "detrend x nmed = Inr (spec_detrend x nmed) \<and>
         length (spec_detrend x nmed) = length x \<and>
         (\<forall>c. x = replicate (length x) c \<longrightarrow>
              detrend x nmed = Inr (replicate (length x) 0))"
proof -
  have d: "detrend x nmed = Inr (spec_detrend x nmed)"
    using x odd by (rule detrend_is_spec_detrend)
  have l: "length (spec_detrend x nmed) = length x"
    by (simp add: spec_detrend_def)
  have "detrend x nmed = Inr (replicate (length x) 0)" if c: "x = replicate (length x) c" for c
  proof -
    have "0 < length x" using x by simp
    then have "spec_detrend (replicate (length x) c) nmed = replicate (length x) 0"
      using odd by (rule spec_detrend_constant)
    with c d show ?thesis by simp
  qed
  with d l show ?thesis by blast
qed

lemma ex_spec_detrend: "spec_detrend [1, 2, 3, 10, 5, 6, 7] 3 = [0, 0, 0, 5, - 1, 0, 0]"
  by code_simp

theorem detrend_subtracts_running_median_witness:
  "detrend [5, 5, 5, 5] 11 = Inr [0, 0, 0, 0] \<and>
   detrend [1, 2, 3, 10, 5, 6, 7] 3 = Inr [0, 0, 0, 5, - 1, 0, 0]"
proof -
  have a: "[5, 5, 5, 5 :: real] \<noteq> []" "odd (11::nat)" by simp_all
  have b: "[1, 2, 3, 10, 5, 6, 7 :: real] \<noteq> []" "odd (3::nat)" by simp_all
  have r: "[5, 5, 5, 5 :: real] = replicate (length [5, 5, 5, 5 :: real]) 5"
    by code_simp
  have z: "replicate (length [5, 5, 5, 5 :: real]) (0::real) = [0, 0, 0, 0]"
    by code_simp
  from detrend_subtracts_running_median [OF a] r
  have "detrend [5, 5, 5, 5] 11 = Inr (replicate (length [5, 5, 5, 5 :: real]) 0)"
    by blast
  then have one: "detrend [5, 5, 5, 5] 11 = Inr [0, 0, 0, 0]"
    by (simp only: z)
  from detrend_subtracts_running_median [OF b]
  have "detrend [1, 2, 3, 10, 5, 6, 7] 3 = Inr (spec_detrend [1, 2, 3, 10, 5, 6, 7] 3)"
    by blast
  then have two: "detrend [1, 2, 3, 10, 5, 6, 7] 3 = Inr [0, 0, 0, 5, - 1, 0, 0]"
    by (simp only: ex_spec_detrend)
  from one two show ?thesis by (rule conjI)
qed

subsection \<open>The two computations of the similarity\<close>

text \<open>
  At lag 0 the circular cross-correlation is the inner product. \<^verbatim>\<open>nxcor\<close> subtracts
  from the reference its mean over the samples before it correlates and normalises; the
  direct formula does not. When that mean is zero the two computations are one.
\<close>

lemma map2_by_index:
  "length c = length r \<Longrightarrow> map2 f c r = map (\<lambda>i. f (c ! i) (r ! i)) [0..<length c]"
  by (rule nth_equalityI) simp_all

lemma xcorr_lag_zero:
  assumes "length c = length r"
  shows "xcorr_lag c r 0 = sum_list (map2 (*) c r)"
proof -
  have "sum_list (map (\<lambda>i. c ! ((i + 0) mod length c) * r ! i) [0..<length c]) =
        sum_list (map (\<lambda>i. c ! i * r ! i) [0..<length c])"
    by (rule arg_cong [where f = sum_list], rule map_cong) simp_all
  then show ?thesis
    unfolding xcorr_lag_def Let_def map2_by_index [OF assms] .
qed

lemma sum_shifted_products:
  "length c = length r \<Longrightarrow>
   sum_list (map2 (*) (map (\<lambda>v. v - m) c) r) = sum_list (map2 (*) c r) - m * sum_list (r :: real list)"
  by (induction c r rule: list_induct2) (simp_all add: algebra_simps)

lemma sum_squares: "sum_list (map2 (*) r r) = sum_list (map (\<lambda>v. v ^ 2) (r :: real list))"
  by (induction r) (simp_all add: power2_eq_square)

lemma column_center:
  assumes rect: "\<forall>r \<in> set raw. length r = num_cols raw" and j: "j < num_cols raw"
  shows "column (center_columns raw) j = map (\<lambda>v. v - mean (column raw j)) (column raw j)"
proof -
  have "map2 (-) r (map mean (columns raw)) ! j = r ! j - mean (column raw j)"
    if "r \<in> set raw" for r
    using that rect j by (simp add: columns_def)
  then show ?thesis
    by (simp add: column_def center_columns_def Let_def)
qed

lemma paths_agree_when_reference_has_zero_mean:
  assumes rect: "\<forall>r \<in> set raw. length r = num_cols raw"
    and ne: "raw \<noteq> []" and nc: "0 < num_cols raw"
    and len: "length ref = length raw" and zero: "sum_list ref = 0"
  shows "nxcor raw ref = Inr (direct_similarity raw ref)"
proof -
  have ref': "map (\<lambda>v. v - mean ref) ref = ref"
    using zero by (simp add: mean_def)
  have n0: "length ref \<noteq> 0" using ne len by simp
  have apeak: "map (xcorr_lag ref ref) [0..<length ref] ! 0 = sum_list (map (\<lambda>v. v ^ 2) ref)"
    using n0 by (simp add: xcorr_lag_zero sum_squares upt_conv_Cons)
  have lc: "length (center_columns raw) = length raw"
    by (simp add: center_columns_def Let_def)
  have row0: "map (\<lambda>k. map (\<lambda>c. xcorr_lag c ref k) (columns (center_columns raw)))
                [0..<length raw] ! 0 =
              map (\<lambda>c. xcorr_lag c ref 0) (columns (center_columns raw))"
    using ne by (simp add: upt_conv_Cons)
  have num: "map (\<lambda>c. xcorr_lag c ref 0) (columns (center_columns raw)) =
             map (\<lambda>c. sum_list (map2 (*) c ref)) (columns raw)"
  proof (rule nth_equalityI)
    show "length (map (\<lambda>c. xcorr_lag c ref 0) (columns (center_columns raw))) =
          length (map (\<lambda>c. sum_list (map2 (*) c ref)) (columns raw))"
      by (simp add: length_columns num_cols_center)
  next
    fix j assume "j < length (map (\<lambda>c. xcorr_lag c ref 0) (columns (center_columns raw)))"
    then have j: "j < num_cols raw" by (simp add: length_columns num_cols_center)
    have lcol: "length (column raw j) = length ref" by (simp add: column_def len)
    have "xcorr_lag (column (center_columns raw) j) ref 0 =
          sum_list (map2 (*) (map (\<lambda>v. v - mean (column raw j)) (column raw j)) ref)"
      unfolding column_center [OF rect j] using lcol by (simp add: xcorr_lag_zero)
    also have "\<dots> = sum_list (map2 (*) (column raw j) ref)"
      using sum_shifted_products [OF lcol] zero by simp
    finally show "map (\<lambda>c. xcorr_lag c ref 0) (columns (center_columns raw)) ! j =
          map (\<lambda>c. sum_list (map2 (*) c ref)) (columns raw) ! j"
      using j by (simp add: columns_def num_cols_center)
  qed
  show ?thesis
    unfolding nxcor_def Let_def ref' fxcor_def fxcor2_def lc
    using n0 nc ne
    by (simp add: apeak row0 num num_cols_center direct_similarity_def)
qed

text \<open>A chunk of four samples and three channels whose columns have mean zero and whose
  median reference has not.\<close>

lemma offset_center:
  "center_columns [[3, - 1, - 2], [- 1, 3, - 2], [- 2, - 2, 4], [0, 0, 0]] =
     [[3, - 1, - 2], [- 1, 3, - 2], [- 2, - 2, 4], [0, 0, 0]]"
  by code_simp

lemma offset_ref:
  "map np_median [[3, - 1, - 2], [- 1, 3, - 2], [- 2, - 2, 4], [0, 0, 0]] = [- 1, - 1, - 2, 0]"
  by code_simp

lemma offset_nxcor:
  "nxcor [[3, - 1, - 2], [- 1, 3, - 2], [- 2, - 2, 4], [0, 0, 0]] [- 1, - 1, - 2, 0] =
     Inr [Some 1, Some 1, Some (- 2)]"
  by code_simp

lemma offset_direct:
  "direct_similarity [[3, - 1, - 2], [- 1, 3, - 2], [- 2, - 2, 4], [0, 0, 0]] [- 1, - 1, - 2, 0] =
     [Some (1 / 3), Some (1 / 3), Some (- 2 / 3)]"
  by code_simp

lemma offset_far: "\<not> allclose [Some 1, Some 1, Some (- 2)] [Some (1 / 3), Some (1 / 3), Some (- 2 / 3)] 0.01"
  by code_simp

lemma offset_sim:
  "channel_similarity [[3, - 1, - 2], [- 1, 3, - 2], [- 2, - 2, 4], [0, 0, 0]] = Inl AssertionError"
  by code_simp

text \<open>
  Claim C1. The two computations should agree within 0.01 on every chunk, and
  \<^verbatim>\<open>channel_similarity\<close> asserts that they do. On the chunk of four samples and three
  channels below, whose columns have mean zero, the median reference is -1, -1, -2, 0, of
  mean -1: the cross-correlation path gives 1, 1, -2, the direct formula 1/3, 1/3, -2/3, the
  assertion fails, and so does the classifier, whatever the spectral routines.
\<close>

theorem similarity_paths_disagree:
  "nxcor [[3, - 1, - 2], [- 1, 3, - 2], [- 2, - 2, 4], [0, 0, 0]]
     (map np_median [[3, - 1, - 2], [- 1, 3, - 2], [- 2, - 2, 4], [0, 0, 0]]) =
     Inr [Some 1, Some 1, Some (- 2)] \<and>
   direct_similarity [[3, - 1, - 2], [- 1, 3, - 2], [- 2, - 2, 4], [0, 0, 0]]
     (map np_median [[3, - 1, - 2], [- 1, 3, - 2], [- 2, - 2, 4], [0, 0, 0]]) =
     [Some (1 / 3), Some (1 / 3), Some (- 2 / 3)] \<and>
   \<not> allclose [Some 1, Some 1, Some (- 2)] [Some (1 / 3), Some (1 / 3), Some (- 2 / 3)] 0.01 \<and>
   channel_similarity [[3, - 1, - 2], [- 1, 3, - 2], [- 2, - 2, 4], [0, 0, 0]] =
     Inl AssertionError \<and>
   detect_bad_channels_ibl lib [[3, - 1, - 2], [- 1, 3, - 2], [- 2, - 2, 4], [0, 0, 0]]
     fs psd_hf_threshold similarity_threshold scale_for_testing = Inl AssertionError"
proof -
  have "detect_bad_channels_ibl lib [[3, - 1, - 2], [- 1, 3, - 2], [- 2, - 2, 4], [0, 0, 0]]
     fs psd_hf_threshold similarity_threshold scale_for_testing = Inl AssertionError"
    unfolding detect_bad_channels_ibl_def Let_def offset_center offset_sim
    by (simp only: err_bind_simps)
  then show ?thesis
    unfolding offset_ref using offset_nxcor offset_direct offset_far offset_sim by blast
qed

subsection \<open>Label 3 in the classifier\<close>

text \<open>
  The recommendation assigns 3 to the channels of \<^verbatim>\<open>ioutside\<close>, then 1 to the dead and
  2 to the noisy ones: a channel ends with 3 when it is in \<^verbatim>\<open>ioutside\<close> and neither of
  the later assignments touches it.
\<close>

lemma label_outside_iff:
  assumes len: "length (xcor_hf xf) = nc" "length (psd_hf xf) = nc"
    and i: "i < nc"
  shows "make_recommendation nc thr sim xf ! i = 3 \<longleftrightarrow>
           i \<in> set (outside_channels nc (xcor_lf xf)) \<and>
           \<not> fst sim > xcor_hf xf ! i \<and>
           \<not> (gt_nan (psd_hf xf ! i) thr \<or> xcor_hf xf ! i > snd sim)"
proof -
  let ?noisy = "np_where (map2 (\<lambda>p x. gt_nan p thr \<or> x > snd sim) (psd_hf xf) (xcor_hf xf))"
  let ?dead = "np_where (map (\<lambda>v. fst sim > v) (xcor_hf xf))"
  have n: "i \<in> set ?noisy \<longleftrightarrow> gt_nan (psd_hf xf ! i) thr \<or> xcor_hf xf ! i > snd sim"
    using len i by (simp add: set_np_where)
  have d: "i \<in> set ?dead \<longleftrightarrow> fst sim > xcor_hf xf ! i"
    using len i by (simp add: set_np_where)
  have "make_recommendation nc thr sim xf ! i =
          (if i \<in> set ?noisy then 2
           else if i \<in> set ?dead then 1
           else if i \<in> set (outside_channels nc (xcor_lf xf)) then 3 else 0)"
    using i by (simp add: make_recommendation_def Let_def nth_assign length_assign)
  then show ?thesis unfolding n d by auto
qed

lemma in_trailing_run:
  "i < nc \<Longrightarrow> i \<in> set (spec_trailing_run nc P) \<longleftrightarrow> list_all P [i..<nc]"
  by (simp add: spec_trailing_run_def)

lemma detect_bad_channels_ibl_labels:
  assumes "detect_bad_channels_ibl lib raw fs thr sim sc = Inr (labels, xf)"
  shows "labels = make_recommendation (num_cols raw) thr sim xf"
  using assms unfolding detect_bad_channels_ibl_def Let_def
  by (auto split: if_splits dest!: err_bind_Inr)

text \<open>
  Claim C3. The channels that lines 237 to 241 select are exactly the trailing run of the
  flagged channels (those whose \<^verbatim>\<open>xcor_lf\<close> is below -0.75), and label 3 is what the
  classifier gives them: in the recommendation, and so in the labels that
  \<^verbatim>\<open>detect_bad_channels_ibl\<close> returns with these features, a channel carries 3 exactly
  when every channel from it to the last is flagged and it is neither dead nor noisy (the
  two assignments that follow overwrite a 3). When no channel is flagged or the last one is
  not, nothing is selected and no channel carries 3.
\<close>

theorem outside_marks_trailing_run:
  assumes len: "length (xcor_hf xf) = nc" "length (xcor_lf xf) = nc" "length (psd_hf xf) = nc"
  shows "outside_channels nc (xcor_lf xf) =
           spec_trailing_run nc (\<lambda>j. xcor_lf xf ! j < - 0.75) \<and>
         (\<forall>i<nc. make_recommendation nc psd_hf_threshold similarity_threshold xf ! i = 3 \<longleftrightarrow>
            list_all (\<lambda>j. xcor_lf xf ! j < - 0.75) [i..<nc] \<and>
            \<not> fst similarity_threshold > xcor_hf xf ! i \<and>
            \<not> (gt_nan (psd_hf xf ! i) psd_hf_threshold \<or>
               xcor_hf xf ! i > snd similarity_threshold)) \<and>
         (\<not> (0 < nc \<and> xcor_lf xf ! (nc - 1) < - 0.75) \<longrightarrow>
            outside_channels nc (xcor_lf xf) = [] \<and>
            (\<forall>i<nc. make_recommendation nc psd_hf_threshold similarity_threshold xf ! i \<noteq> 3)) \<and>
         (\<forall>lib raw fs scale_for_testing labels.
            detect_bad_channels_ibl lib raw fs psd_hf_threshold similarity_threshold
              scale_for_testing = Inr (labels, xf) \<and> num_cols raw = nc \<longrightarrow>
            (\<forall>i<nc. labels ! i = 3 \<longleftrightarrow>
               list_all (\<lambda>j. xcor_lf xf ! j < - 0.75) [i..<nc] \<and>
               \<not> fst similarity_threshold > xcor_hf xf ! i \<and>
               \<not> (gt_nan (psd_hf xf ! i) psd_hf_threshold \<or>
                  xcor_hf xf ! i > snd similarity_threshold)))"
proof -
  let ?P = "\<lambda>j. xcor_lf xf ! j < - 0.75"
  let ?rec = "make_recommendation nc psd_hf_threshold similarity_threshold xf"
  have eq: "outside_channels nc (xcor_lf xf) = spec_trailing_run nc ?P"
    using len(2) by (rule outside_channels_trailing_run)
  have marks: "?rec ! i = 3 \<longleftrightarrow>
            list_all ?P [i..<nc] \<and>
            \<not> fst similarity_threshold > xcor_hf xf ! i \<and>
            \<not> (gt_nan (psd_hf xf ! i) psd_hf_threshold \<or>
               xcor_hf xf ! i > snd similarity_threshold)" if i: "i < nc" for i
    unfolding label_outside_iff [OF len(1) len(3) i] eq in_trailing_run [OF i] ..
  have none: "outside_channels nc (xcor_lf xf) = []" if no: "\<not> (0 < nc \<and> ?P (nc - 1))"
    unfolding eq spec_trailing_run_def
  proof (rule ccontr)
    assume "filter (\<lambda>i. list_all ?P [i..<nc]) [0..<nc] \<noteq> []"
    then obtain i where "i < nc" "list_all ?P [i..<nc]"
      by (auto simp add: filter_empty_conv)
    then have "0 < nc \<and> ?P (nc - 1)"
      using run_implies_flagged [of i nc ?P] by simp
    with no show False by simp
  qed
  have none3: "?rec ! i \<noteq> 3" if no: "\<not> (0 < nc \<and> ?P (nc - 1))" and i: "i < nc" for i
    unfolding label_outside_iff [OF len(1) len(3) i] none [OF no] by simp
  have ibl: "labels ! i = 3 \<longleftrightarrow>
               list_all ?P [i..<nc] \<and>
               \<not> fst similarity_threshold > xcor_hf xf ! i \<and>
               \<not> (gt_nan (psd_hf xf ! i) psd_hf_threshold \<or>
                  xcor_hf xf ! i > snd similarity_threshold)"
    if run: "detect_bad_channels_ibl lib raw fs psd_hf_threshold similarity_threshold
              scale_for_testing = Inr (labels, xf)" and nc: "num_cols raw = nc" and i: "i < nc"
    for lib raw fs scale_for_testing labels i
    unfolding detect_bad_channels_ibl_labels [OF run] nc by (rule marks [OF i])
  from eq marks none none3 ibl show ?thesis by blast
qed

text \<open>
  Features of 10 channels with 6, 7 and 9 flagged, with 7, 8 and 9 flagged, and with 7 and
  8 flagged; and a run of the classifier on three channels whose filtered signal leaves the
  last one without similarity to the others, so that it is labelled 3.
\<close>

lemma detect_bad_channels_ibl_eval:
  assumes "center_columns raw0 = raw"
    and "channel_similarity raw = Inr xcor"
    and "allclose (map Some xcor) (channel_simiarlity_new raw) 0.0001"
    and "channel_similarity (highpass lib fs raw) = Inr xcorf"
    and "detrend xcor 11 = Inr hfd"
    and "detrend xcorf 11 = Inr lfd"
    and "\<lparr>ind = [0..<num_cols raw0],
          rms_raw = rms raw,
          xcor_hf = hfd,
          xcor_lf = map2 (\<lambda>a d. a - d - 1) xcorf lfd,
          psd_hf = mean_psd_hf fs (num_cols raw0)
                     (welch lib fs (map (map (\<lambda>v. v * scale_factor sc)) raw))\<rparr> = xf"
    and "make_recommendation (num_cols raw0) thr sim xf = labels"
  shows "detect_bad_channels_ibl lib raw0 fs thr sim sc = Inr (labels, xf)"
  using assms(2-) unfolding detect_bad_channels_ibl_def Let_def assms(1)
  by (simp add: err_bind_simps)

lemma h_sim: "channel_similarity [[1, 1, 0], [- 1, - 1, 0]] = Inr [1, 1, 0]"
  by code_simp

lemma h_detrend: "detrend [1, 1, 0] 11 = Inr [0, 0, 0]"
  by code_simp

lemma h_rec: "make_recommendation (num_cols [[1, 1, 1], [- 1, - 1, - 1]]) 1 (- 1, 1)
     \<lparr>ind = [0, 1, 2], rms_raw = [1, 1, 1], xcor_hf = [0, 0, 0], xcor_lf = [0, 0, - 1],
        psd_hf = [Some 0, Some 0, Some 0]\<rparr> = [0, 0, 3]"
  by code_simp

lemma h_run:
  "detect_bad_channels_ibl
     \<lparr>welch = (\<lambda>fs x. ([fs], [[0, 0, 0]])), highpass = (\<lambda>fs x. [[1, 1, 0], [- 1, - 1, 0]])\<rparr>
     [[1, 1, 1], [- 1, - 1, - 1]] 30000 1 (- 1, 1) False =
   Inr ([0, 0, 3],
        \<lparr>ind = [0, 1, 2], rms_raw = [1, 1, 1], xcor_hf = [0, 0, 0], xcor_lf = [0, 0, - 1],
           psd_hf = [Some 0, Some 0, Some 0]\<rparr>)"
proof (rule detect_bad_channels_ibl_eval [OF g_center g_sim _ _ g_detrend h_detrend _ h_rec])
  show "allclose (map Some [1, 1, 1]) (channel_simiarlity_new [[1, 1, 1], [- 1, - 1, - 1]]) 0.0001"
    by (simp add: g_sim_new allclose_def isclose_def)
  show "channel_similarity
     (highpass \<lparr>welch = (\<lambda>fs x. ([fs], [[0, 0, 0]])),
                highpass = (\<lambda>fs x. [[1, 1, 0], [- 1, - 1, 0]])\<rparr> 30000
        [[1, 1, 1], [- 1, - 1, - 1]])
      = Inr [1, 1, 0]" by (simp add: h_sim)
  show "\<lparr>ind = [0..<num_cols [[1, 1, 1], [- 1, - 1, - 1]]],
          rms_raw = rms [[1, 1, 1], [- 1, - 1, - 1]],
          xcor_hf = [0, 0, 0],
          xcor_lf = map2 (\<lambda>a d. a - d - 1) [1, 1, 0] [0, 0, 0],
          psd_hf = mean_psd_hf 30000 (num_cols [[1, 1, 1], [- 1, - 1, - 1]])
                     (welch \<lparr>welch = (\<lambda>fs x. ([fs], [[0, 0, 0]])),
                              highpass = (\<lambda>fs x. [[1, 1, 0], [- 1, - 1, 0]])\<rparr> 30000
                        (map (map (\<lambda>v. v * scale_factor False)) [[1, 1, 1], [- 1, - 1, - 1]]))\<rparr>
        = \<lparr>ind = [0, 1, 2], rms_raw = [1, 1, 1], xcor_hf = [0, 0, 0], xcor_lf = [0, 0, - 1],
        psd_hf = [Some 0, Some 0, Some 0]\<rparr>"
    by (simp add: g_rms num_cols_def upt3 mean_psd_hf_def column_def mean_def)
qed

theorem outside_marks_trailing_run_witness:
  "outside_channels 10 [0, 0, 0, 0, 0, 0, - 1, - 1, 0, - 1] = [9] \<and>
   outside_channels 10 [0, 0, 0, 0, 0, 0, 0, - 1, - 1, - 1] = [7, 8, 9] \<and>
   outside_channels 10 [0, 0, 0, 0, 0, 0, 0, - 1, - 1, 0] = [] \<and>
   make_recommendation 10 1 (- 1, 1)
     \<lparr>ind = [], rms_raw = [], xcor_hf = [0, 0, 0, 0, 0, 0, 0, 0, 0, 0],
        xcor_lf = [0, 0, 0, 0, 0, 0, - 1, - 1, 0, - 1],
        psd_hf = [Some 0, Some 0, Some 0, Some 0, Some 0, Some 0, Some 0, Some 0, Some 0, Some 0]\<rparr>
     ! 9 = 3 \<and>
   make_recommendation 10 1 (- 1, 1)
     \<lparr>ind = [], rms_raw = [], xcor_hf = [0, 0, 0, 0, 0, 0, 0, 0, 0, 0],
        xcor_lf = [0, 0, 0, 0, 0, 0, - 1, - 1, 0, - 1],
        psd_hf = [Some 0, Some 0, Some 0, Some 0, Some 0, Some 0, Some 0, Some 0, Some 0, Some 0]\<rparr>
     ! 7 \<noteq> 3 \<and>
   make_recommendation 10 1 (- 1, 1)
     \<lparr>ind = [], rms_raw = [], xcor_hf = [0, 0, 0, 0, 0, 0, 0, 0, 0, 0],
        xcor_lf = [0, 0, 0, 0, 0, 0, 0, - 1, - 1, 0],
        psd_hf = [Some 0, Some 0, Some 0, Some 0, Some 0, Some 0, Some 0, Some 0, Some 0, Some 0]\<rparr>
     ! 8 \<noteq> 3 \<and>
   detect_bad_channels_ibl
     \<lparr>welch = (\<lambda>fs x. ([fs], [[0, 0, 0]])), highpass = (\<lambda>fs x. [[1, 1, 0], [- 1, - 1, 0]])\<rparr>
     [[1, 1, 1], [- 1, - 1, - 1]] 30000 1 (- 1, 1) False =
   Inr ([0, 0, 3],
        \<lparr>ind = [0, 1, 2], rms_raw = [1, 1, 1], xcor_hf = [0, 0, 0], xcor_lf = [0, 0, - 1],
           psd_hf = [Some 0, Some 0, Some 0]\<rparr>) \<and>
   [0, 0, 3 :: nat] ! 2 = 3"
proof -
  let ?z = "[0, 0, 0, 0, 0, 0, 0, 0, 0, 0 :: real]"
  let ?p = "[Some 0, Some 0, Some 0, Some 0, Some 0, Some 0, Some 0, Some 0, Some 0, Some (0::real)]"
  let ?a = "\<lparr>ind = [], rms_raw = [], xcor_hf = ?z,
              xcor_lf = [0, 0, 0, 0, 0, 0, - 1, - 1, 0, - 1], psd_hf = ?p\<rparr>"
  let ?b = "\<lparr>ind = [], rms_raw = [], xcor_hf = ?z,
              xcor_lf = [0, 0, 0, 0, 0, 0, 0, - 1, - 1, - 1], psd_hf = ?p\<rparr>"
  let ?c = "\<lparr>ind = [], rms_raw = [], xcor_hf = ?z,
              xcor_lf = [0, 0, 0, 0, 0, 0, 0, - 1, - 1, 0], psd_hf = ?p\<rparr>"
  let ?h = "\<lparr>ind = [0, 1, 2], rms_raw = [1, 1, 1], xcor_hf = [0, 0, 0],
              xcor_lf = [0, 0, - 1], psd_hf = [Some 0, Some 0, Some (0::real)]\<rparr>"
  let ?lib = "\<lparr>welch = (\<lambda>fs (x::chunk). ([fs], [[0, 0, 0 :: real]])),
                highpass = (\<lambda>(fs::real) (x::chunk). [[1, 1, 0], [- 1, - 1, 0 :: real]])\<rparr>"
  have la: "length (xcor_hf ?a) = 10" "length (xcor_lf ?a) = 10" "length (psd_hf ?a) = 10"
    by simp_all
  have lb: "length (xcor_hf ?b) = 10" "length (xcor_lf ?b) = 10" "length (psd_hf ?b) = 10"
    by simp_all
  have lc: "length (xcor_hf ?c) = 10" "length (xcor_lf ?c) = 10" "length (psd_hf ?c) = 10"
    by simp_all
  have lh: "length (xcor_hf ?h) = 3" "length (xcor_lf ?h) = 3" "length (psd_hf ?h) = 3"
    by simp_all
  note ta = outside_marks_trailing_run [where psd_hf_threshold = 1 and similarity_threshold = "(- 1, 1)", OF la]
  note tb = outside_marks_trailing_run [where psd_hf_threshold = 1 and similarity_threshold = "(- 1, 1)", OF lb]
  note tc = outside_marks_trailing_run [where psd_hf_threshold = 1 and similarity_threshold = "(- 1, 1)", OF lc]
  note th = outside_marks_trailing_run [where psd_hf_threshold = 1 and similarity_threshold = "(- 1, 1)", OF lh]
  have o1: "outside_channels 10 [0, 0, 0, 0, 0, 0, - 1, - 1, 0, - 1] = [9]"
    using ta [THEN conjunct1] unfolding xfeats.select_convs run_679 .
  have o2: "outside_channels 10 [0, 0, 0, 0, 0, 0, 0, - 1, - 1, - 1] = [7, 8, 9]"
    using tb [THEN conjunct1] unfolding xfeats.select_convs run_789 .
  have o3: "outside_channels 10 [0, 0, 0, 0, 0, 0, 0, - 1, - 1, 0] = []"
    using tc [THEN conjunct1] unfolding xfeats.select_convs run_78 .
  have n: "(9::nat) < 10" "(7::nat) < 10" "(2::nat) < 3" by simp_all
  have r9: "list_all (\<lambda>j. xcor_lf ?a ! j < - 0.75) [9..<10] \<and>
            \<not> fst (- 1 :: real, 1 :: real) > xcor_hf ?a ! 9 \<and>
            \<not> (gt_nan (psd_hf ?a ! 9) 1 \<or> xcor_hf ?a ! 9 > snd (- 1 :: real, 1 :: real))"
    by code_simp
  have r7: "\<not> (list_all (\<lambda>j. xcor_lf ?a ! j < - 0.75) [7..<10] \<and>
            \<not> fst (- 1 :: real, 1 :: real) > xcor_hf ?a ! 7 \<and>
            \<not> (gt_nan (psd_hf ?a ! 7) 1 \<or> xcor_hf ?a ! 7 > snd (- 1 :: real, 1 :: real)))"
    by code_simp
  have m9: "make_recommendation 10 1 (- 1, 1) ?a ! 9 = 3"
    using ta [THEN conjunct2, THEN conjunct1, THEN spec, THEN mp, OF n(1)] r9 by (rule iffD2)
  have m7: "make_recommendation 10 1 (- 1, 1) ?a ! 7 \<noteq> 3"
    using ta [THEN conjunct2, THEN conjunct1, THEN spec, THEN mp, OF n(2)] r7 by blast
  have last_c: "\<not> (0 < (10::nat) \<and> xcor_lf ?c ! (10 - 1) < - 0.75)"
    by code_simp
  have "\<forall>i<10. make_recommendation 10 1 (- 1, 1) ?c ! i \<noteq> 3"
    using tc [THEN conjunct2, THEN conjunct2, THEN conjunct1, THEN mp, OF last_c]
    by (rule conjunct2)
  then have mc: "make_recommendation 10 1 (- 1, 1) ?c ! 8 \<noteq> 3"
    by simp
  have run: "detect_bad_channels_ibl ?lib [[1, 1, 1], [- 1, - 1, - 1]] 30000 1 (- 1, 1) False =
               Inr ([0, 0, 3], ?h)"
    by (rule h_run)
  have nc: "num_cols [[1, 1, 1], [- 1, - 1, - 1 :: real]] = 3" by (simp add: num_cols_def)
  have r2: "list_all (\<lambda>j. xcor_lf ?h ! j < - 0.75) [2..<3] \<and>
            \<not> fst (- 1 :: real, 1 :: real) > xcor_hf ?h ! 2 \<and>
            \<not> (gt_nan (psd_hf ?h ! 2) 1 \<or> xcor_hf ?h ! 2 > snd (- 1 :: real, 1 :: real))"
    by code_simp
  have "\<forall>i<3. [0, 0, 3 :: nat] ! i = 3 \<longleftrightarrow>
          list_all (\<lambda>j. xcor_lf ?h ! j < - 0.75) [i..<3] \<and>
          \<not> fst (- 1 :: real, 1 :: real) > xcor_hf ?h ! i \<and>
          \<not> (gt_nan (psd_hf ?h ! i) 1 \<or> xcor_hf ?h ! i > snd (- 1 :: real, 1 :: real))"
    using th [THEN conjunct2, THEN conjunct2, THEN conjunct2, THEN spec, THEN spec, THEN spec,
        THEN spec, THEN spec, THEN mp, OF conjI, OF run nc] .
  then have m2: "[0, 0, 3 :: nat] ! 2 = 3"
    using n(3) r2 by blast
  from o1 o2 o3 m9 m7 mc run m2 show ?thesis by blast
qed

subsection \<open>The scaling in the classifier\<close>











end
